theory Spec2Isabelle
  imports Complex_Main "HOL-Library.Word" "HOL-Library.AList"
begin

section \<open>Script values\<close>

text \<open>
  The values of the embedded script engine, as the host code inspects them. A number is a
  float64 in the engine; it is modelled as a real. A function value is identified by a
  number (the identity of the closure). A table has an array part and a part keyed by
  strings; the host code reads tables only through \<open>RawGetString\<close> and \<open>ForEach\<close>.
\<close>

datatype lvalue =
    LNil
  | LBool bool
  | LNumber real
  | LString string
  | LFunction nat
  | LTable "lvalue list" "(string \<times> lvalue) list"
  | LUserData nat

datatype lvalue_type =
  LTNil | LTBool | LTNumber | LTString | LTFunction | LTUserData | LTTable

fun Type :: "lvalue \<Rightarrow> lvalue_type" where
  "Type LNil = LTNil"
| "Type (LBool b) = LTBool"
| "Type (LNumber x) = LTNumber"
| "Type (LString s) = LTString"
| "Type (LFunction f) = LTFunction"
| "Type (LTable a d) = LTTable"
| "Type (LUserData u) = LTUserData"

text \<open>\<open>RawGetString\<close> on the string-keyed part of a table: an absent key reads as nil.\<close>

definition RawGetString :: "(string \<times> lvalue) list \<Rightarrow> string \<Rightarrow> lvalue" where
  "RawGetString d k = (case map_of d k of Some v \<Rightarrow> v | None \<Rightarrow> LNil)"

text \<open>\<open>RawSetString\<close>: storing nil removes the key.\<close>

definition RawSetString :: "(string \<times> lvalue) list \<Rightarrow> string \<Rightarrow> lvalue \<Rightarrow> (string \<times> lvalue) list" where
  "RawSetString d k v = (if v = LNil then AList.delete k d else AList.update k v d)"

text \<open>
  \<open>ForEach\<close> visits the array part in index order and then the string-keyed part, skipping
  nil values. The callbacks in this program ignore the key, so only the values are listed.
  The engine visits the string-keyed part in no fixed order: the order of the list stands
  for whichever order a run takes, and no property below depends on it. Entries under
  keys that are neither array indices nor strings are not modelled.
\<close>

definition ForEach :: "lvalue list \<Rightarrow> (string \<times> lvalue) list \<Rightarrow> lvalue list" where
  "ForEach a d = filter (\<lambda>v. v \<noteq> LNil) (a @ map snd d)"

text \<open>\<open>LVAsBool\<close>: everything but nil and false is true.\<close>

definition LVAsBool :: "lvalue \<Rightarrow> bool" where
  "LVAsBool v = (v \<noteq> LNil \<and> v \<noteq> LBool False)"

text \<open>
  \<open>String()\<close> of a value. For numbers, functions, tables and userdata the text depends on
  float formatting or on an address; that part is the parameter \<open>other\<close>.
\<close>

definition String :: "(lvalue \<Rightarrow> string) \<Rightarrow> lvalue \<Rightarrow> string" where
  "String other v =
     (case v of
        LString s \<Rightarrow> s
      | LNil \<Rightarrow> ''nil''
      | LBool b \<Rightarrow> (if b then ''true'' else ''false'')
      | _ \<Rightarrow> other v)"

text \<open>
  The conversions \<open>uint8(x)\<close> and \<open>int64(x)\<close> of a float64 truncate towards zero. The
  language leaves the result for a value out of range to the implementation; the
  definitions follow the compiled code on amd64. There \<open>uint8(x)\<close> goes through a 32-bit
  integer and keeps its low eight bits, so it is exact for 0 to 255, wraps modulo 256
  below \<open>2^31\<close> in magnitude and is 0 from there on; \<open>int64(x)\<close> is the smallest 64-bit
  integer for a value out of range.
\<close>

definition truncateToZero :: "real \<Rightarrow> int" where
  "truncateToZero x = (if 0 \<le> x then \<lfloor>x\<rfloor> else \<lceil>x\<rceil>)"

definition uint8_of :: "real \<Rightarrow> 8 word" where
  "uint8_of x =
     (if \<bar>truncateToZero x\<bar> < 2 ^ 31 then word_of_int (truncateToZero x) else 0)"

definition int64_of :: "real \<Rightarrow> int" where
  "int64_of x =
     (if - (2 ^ 63) \<le> truncateToZero x \<and> truncateToZero x < 2 ^ 63
      then truncateToZero x else - (2 ^ 63))"

section \<open>Platform types\<close>

abbreviation ApplicationCommandOptionSubCommand :: "8 word" where
  "ApplicationCommandOptionSubCommand \<equiv> 1"
abbreviation ApplicationCommandOptionSubCommandGroup :: "8 word" where
  "ApplicationCommandOptionSubCommandGroup \<equiv> 2"
abbreviation ApplicationCommandOptionString :: "8 word" where
  "ApplicationCommandOptionString \<equiv> 3"
abbreviation ApplicationCommandOptionInteger :: "8 word" where
  "ApplicationCommandOptionInteger \<equiv> 4"
abbreviation ApplicationCommandOptionBoolean :: "8 word" where
  "ApplicationCommandOptionBoolean \<equiv> 5"
abbreviation ApplicationCommandOptionNumber :: "8 word" where
  "ApplicationCommandOptionNumber \<equiv> 10"

abbreviation InteractionApplicationCommand :: "8 word" where
  "InteractionApplicationCommand \<equiv> 2"

text \<open>The value of an option of an inbound event, as decoded from JSON.\<close>

datatype jvalue = JNull | JNumber real | JBool bool | JString string | JOther

text \<open>
  An option of an inbound command event. Its nested option list can be nil, which the
  code tells apart from an empty list.
\<close>

datatype ido =
  DataOption (ido_Name: string) (ido_Type: "8 word") (ido_Value: jvalue)
             (ido_Options: "ido list option")

datatype interaction_data =
    ApplicationCommandInteractionData string "ido list"
  | OtherInteractionData

record InteractionCreate =
  ID :: string
  iType :: "8 word"
  Data :: interaction_data

section \<open>The dispatch key\<close>

text \<open>
  The loop of \<open>HandleInteraction\<close> that extends the command name:
  \<^verbatim>\<open>for _, opt := range data.Options {
       if opt.Type == discordgo.ApplicationCommandOptionSubCommand {
           commandName += "_" + opt.Name
           break
       }
   }\<close>
\<close>

fun commandName_loop :: "string \<Rightarrow> ido list \<Rightarrow> string" where
  "commandName_loop commandName [] = commandName"
| "commandName_loop commandName (opt # opts) =
     (if ido_Type opt = ApplicationCommandOptionSubCommand
      then commandName @ ''_'' @ ido_Name opt
      else commandName_loop commandName opts)"

text \<open>
  The key as the specification words it: the subcommand name is appended exactly when
  the first option of the list is of subcommand type.
\<close>

definition spec_lookup_key :: "string \<Rightarrow> ido list \<Rightarrow> string" where
  "spec_lookup_key commandName opts =
     (case opts of
        [] \<Rightarrow> commandName
      | opt # rest \<Rightarrow>
          (if ido_Type opt = ApplicationCommandOptionSubCommand
           then commandName @ ''_'' @ ido_Name opt
           else commandName))"

section \<open>Flattening the options of an event\<close>

text \<open>
  The value stored for an option that is not a subcommand. \<open>IntValue\<close>, \<open>BoolValue\<close>,
  \<open>StringValue\<close> and \<open>FloatValue\<close> panic when the decoded value has another dynamic
  type; the panic is the \<open>Inl\<close> branch. The text \<open>fmt.Sprintf("%v", opt.Value)\<close> is the
  parameter \<open>fmtv\<close>.
\<close>

definition optionValue :: "(jvalue \<Rightarrow> string) \<Rightarrow> ido \<Rightarrow> string + lvalue" where
  "optionValue fmtv opt =
     (if ido_Type opt = ApplicationCommandOptionInteger then
        (case ido_Value opt of
           JNumber x \<Rightarrow> Inr (LNumber (of_int (int64_of x)))
         | _ \<Rightarrow> Inl ''interface conversion'')
      else if ido_Type opt = ApplicationCommandOptionBoolean then
        (case ido_Value opt of
           JBool b \<Rightarrow> Inr (LBool b)
         | _ \<Rightarrow> Inl ''interface conversion'')
      else if ido_Type opt = ApplicationCommandOptionString then
        (case ido_Value opt of
           JString s \<Rightarrow> Inr (LString s)
         | _ \<Rightarrow> Inl ''interface conversion'')
      else if ido_Type opt = ApplicationCommandOptionNumber then
        (case ido_Value opt of
           JNumber x \<Rightarrow> Inr (LNumber x)
         | _ \<Rightarrow> Inl ''interface conversion'')
      else Inr (LString (fmtv (ido_Value opt))))"

text \<open>
  \<open>buildOptionsTable\<close>. The table \<open>T\<close> is created when it is nil and is otherwise the one
  the caller passes, so the recursive call goes on writing into the same table.
\<close>

fun buildOptionsTable ::
  "(jvalue \<Rightarrow> string) \<Rightarrow> (string \<times> lvalue) list option \<Rightarrow> ido list \<Rightarrow>
   string + (string \<times> lvalue) list" where
  "buildOptionsTable fmtv T [] = Inr (case T of None \<Rightarrow> [] | Some t \<Rightarrow> t)"
| "buildOptionsTable fmtv T (DataOption name ty val sub # options) =
     (let t = (case T of None \<Rightarrow> [] | Some t \<Rightarrow> t) in
      if ty = ApplicationCommandOptionSubCommand then
        (case sub of
           Some subOptions \<Rightarrow> buildOptionsTable fmtv (Some t) subOptions
         | None \<Rightarrow> buildOptionsTable fmtv (Some t) options)
      else
        (case optionValue fmtv (DataOption name ty val sub) of
           Inl p \<Rightarrow> Inl p
         | Inr v \<Rightarrow> buildOptionsTable fmtv (Some (RawSetString t name v)) options))"

section \<open>The host state\<close>

datatype level = Debug | Info | Warn | Error

text \<open>
  The platform session; the code reads \<open>session.State.User.ID\<close> from it. A session
  pointer is an option: \<open>None\<close> is the nil pointer.
\<close>

record session =
  StateUserID :: string

datatype aco =
  ApplicationCommandOption (aco_Name: string) (aco_Description: string) (aco_Type: "8 word")
                           (aco_Required: bool) (aco_Options: "aco list")

record ApplicationCommand =
  Name :: string
  Description :: string
  Options :: "aco list"

text \<open>One call of \<open>ApplicationCommandCreate\<close>: application id, guild id, command.\<close>

type_synonym create_call = "string \<times> string \<times> ApplicationCommand"

text \<open>
  What the host code can change outside its own structures: the globals of the script
  engine (an unset global reads as nil), the calls made to the platform, the script
  functions the host has called with their arguments, and the log.
\<close>

record world =
  globals :: "string \<Rightarrow> lvalue"
  calls :: "create_call list"
  invoked :: "(nat \<times> lvalue list) list"
  logs :: "(level \<times> string) list"

text \<open>
  The command binding. A pending registration is a closure over the command it will
  create; the closure is represented by that command.
\<close>

record ApplicationCommandBinding =
  Session :: "session option"
  GuildID :: string
  Commands :: "string \<rightharpoonup> string"
  waitRegister :: "ApplicationCommand list"

text \<open>
  The ways a host function ends other than by returning: an argument or type error raised
  to the calling script, an error raised with \<open>RaiseError\<close>, a panic of the host language.
\<close>

datatype failure =
    ArgError nat string
  | TypeError nat lvalue_type
  | RaiseError string
  | GoPanic string

definition slog :: "level \<Rightarrow> string \<Rightarrow> world \<Rightarrow> world" where
  "slog l msg w = w\<lparr>logs := logs w @ [(l, msg)]\<rparr>"

definition SetGlobal :: "string \<Rightarrow> lvalue \<Rightarrow> world \<Rightarrow> world" where
  "SetGlobal name v w = w\<lparr>globals := (globals w)(name := v)\<rparr>"

definition quote :: "string \<Rightarrow> string" where
  "quote s = CHR 0x27 # s @ [CHR 0x27]"

text \<open>
  The platform is outside the program. Whether a call fails is given by the parameter
  \<open>perr\<close>, from the calls made so far and the call at hand; every call is recorded.
\<close>

definition ApplicationCommandCreate ::
  "(create_call list \<Rightarrow> create_call \<Rightarrow> string option) \<Rightarrow> session \<Rightarrow> string \<Rightarrow>
   ApplicationCommand \<Rightarrow> world \<Rightarrow> string option \<times> world" where
  "ApplicationCommandCreate perr s guildID appCmd w =
     (perr (calls w) (StateUserID s, guildID, appCmd),
      w\<lparr>calls := calls w @ [(StateUserID s, guildID, appCmd)]\<rparr>)"

section \<open>The command binding: registration\<close>

definition NewApplicationCommandBinding ::
  "string \<Rightarrow> world \<Rightarrow> ApplicationCommandBinding \<times> world" where
  "NewApplicationCommandBinding guildID w =
     (\<lparr>Session = None, GuildID = guildID, Commands = Map.empty, waitRegister = []\<rparr>,
      slog Debug ''Creating new ApplicationCommandBinding'' w)"

text \<open>
  A pending closure, called with the session:
  \<^verbatim>\<open>func(session *discordgo.Session) {
       if _, err := session.ApplicationCommandCreate(session.State.User.ID, b.GuildID, appCmd); err != nil {
           L.RaiseError("failed to register command '%s' with Discord: %s", name, err.Error())
       }
   }\<close>
  With a nil session the first dereference panics.
\<close>

definition registerClosure ::
  "(create_call list \<Rightarrow> create_call \<Rightarrow> string option) \<Rightarrow> string \<Rightarrow> ApplicationCommand \<Rightarrow>
   session option \<Rightarrow> world \<Rightarrow> failure option \<times> world" where
  "registerClosure perr guildID appCmd session w =
     (case session of
        None \<Rightarrow> (Some (GoPanic ''nil pointer dereference''), w)
      | Some s \<Rightarrow>
          (case ApplicationCommandCreate perr s guildID appCmd w of
             (Some err, w') \<Rightarrow>
               (Some (RaiseError (''failed to register command '' @ quote (Name appCmd)
                                  @ '' with Discord: '' @ err)), w')
           | (None, w') \<Rightarrow> (None, w')))"

text \<open>The loop of \<open>SetSession\<close> over \<open>b.waitRegister\<close>; a raised error ends it.\<close>

fun replay ::
  "(create_call list \<Rightarrow> create_call \<Rightarrow> string option) \<Rightarrow> string \<Rightarrow> session option \<Rightarrow>
   ApplicationCommand list \<Rightarrow> world \<Rightarrow> failure option \<times> world" where
  "replay perr guildID session [] w = (None, w)"
| "replay perr guildID session (f # fs) w =
     (case registerClosure perr guildID f session w of
        (Some e, w') \<Rightarrow> (Some e, w')
      | (None, w') \<Rightarrow> replay perr guildID session fs w')"

definition SetSession ::
  "(create_call list \<Rightarrow> create_call \<Rightarrow> string option) \<Rightarrow> session option \<Rightarrow>
   ApplicationCommandBinding \<Rightarrow> world \<Rightarrow> failure option \<times> ApplicationCommandBinding \<times> world" where
  "SetSession perr session b w =
     (let w1 = slog Info ''Setting session for ApplicationCommandBinding'' w;
          b1 = b\<lparr>Session := session\<rparr>;
          (e, w2) = replay perr (GuildID b1) session (waitRegister b1) w1
      in (e, b1, w2))"

text \<open>
  \<open>parseOptions\<close>, as a loop over the values that \<open>ForEach\<close> visits. A value that is not a
  table is skipped. \<open>ArgError\<close> does not return, so the stores made before it stay and
  nothing after it runs.
\<close>

function parseOptions ::
  "string \<Rightarrow> lvalue list \<Rightarrow> ApplicationCommandBinding \<times> world \<Rightarrow>
   (failure + aco list) \<times> ApplicationCommandBinding \<times> world" where
  "parseOptions parentName [] bw = (Inr [], bw)"
| "parseOptions parentName (value # values) bw =
     (case value of
        LTable a d \<Rightarrow>
          (case RawGetString d ''name'' of
             LString name \<Rightarrow>
               (case RawGetString d ''description'' of
                  LString description \<Rightarrow>
                    (case RawGetString d ''type'' of
                       LNumber typeField \<Rightarrow>
                         (let ty = uint8_of typeField;
                              required = LVAsBool (RawGetString d ''required'');
                              finish = (\<lambda>subs bw'.
                                 case parseOptions parentName values
                                        (fst bw', slog Debug ''Parsed command option'' (snd bw')) of
                                   (Inl e, bw'') \<Rightarrow> (Inl e, bw'')
                                 | (Inr opts, bw'') \<Rightarrow>
                                     (Inr (ApplicationCommandOption name description ty required subs
                                           # opts), bw''))
                          in if ty = ApplicationCommandOptionSubCommand then
                               (case RawGetString d ''handler'' of
                                  LFunction h \<Rightarrow>
                                    (let handlerName = ''handler_'' @ parentName @ ''_'' @ name;
                                         bw1 = ((fst bw)\<lparr>Commands :=
                                                   (Commands (fst bw))(parentName @ ''_'' @ name
                                                                        \<mapsto> handlerName)\<rparr>,
                                                SetGlobal handlerName (LFunction h) (snd bw))
                                     in case RawGetString d ''options'' of
                                          LTable a' d' \<Rightarrow>
                                            (case parseOptions (parentName @ ''_'' @ name)
                                                    (ForEach a' d') bw1 of
                                               (Inl e, bw2) \<Rightarrow> (Inl e, bw2)
                                             | (Inr subs, bw2) \<Rightarrow> finish subs bw2)
                                        | _ \<Rightarrow> finish [] bw1)
                                | _ \<Rightarrow>
                                    (Inl (ArgError 1
                                       ''Subcommand '%s' must have a 'handler' function''), bw))
                             else finish [] bw)
                     | _ \<Rightarrow> (Inl (ArgError 1 '''type' in options must be a number''), bw))
                | _ \<Rightarrow> (Inl (ArgError 1 '''description' in options must be a string''), bw))
           | _ \<Rightarrow> (Inl (ArgError 1 '''name' in options must be a string''), bw))
      | _ \<Rightarrow> parseOptions parentName values bw)"
  by pat_completeness auto

text \<open>
  The recursion descends into the \<open>options\<close> field of a value of the list, which is
  smaller than the list.
\<close>

lemma size_map_of:
  "map_of d k = Some v \<Longrightarrow> size v < size_list (size_prod (\<lambda>x. 0) size) d"
  by (induction d) (auto split: if_splits)

lemma size_RawGetString:
  "RawGetString d k = LTable a' d' \<Longrightarrow>
   size (LTable a' d') < size_list (size_prod (\<lambda>x. 0) size) d"
  by (auto simp: RawGetString_def split: option.splits dest: size_map_of)

lemma size_list_filter: "size_list f (filter P xs) \<le> size_list f xs"
  by (induction xs) auto

lemma size_list_map_snd:
  "size_list size (map snd d) \<le> size_list (size_prod (\<lambda>x. 0) size) d"
  by (induction d) auto

lemma size_ForEach: "size_list size (ForEach a d) < size (LTable a d)"
proof -
  have "size_list size (ForEach a d) \<le> size_list size (a @ map snd d)"
    unfolding ForEach_def by (rule size_list_filter)
  also have "\<dots> \<le> size_list size a + size_list (size_prod (\<lambda>x. 0) size) d"
    using size_list_map_snd [of d] by simp
  finally show ?thesis by simp
qed

lemma size_sub_options:
  "RawGetString d ''options'' = LTable a' d' \<Longrightarrow>
   size_list size (ForEach a' d')
     < Suc (Suc (size_list size a + size_list (size_prod (\<lambda>x. 0) size) d + n))"
  using size_RawGetString [of d "''options''" a' d'] size_ForEach [of a' d'] by simp

termination parseOptions
  by (relation "measure (\<lambda>(p, vs, bw). size_list size vs)") (simp_all add: size_sub_options)

text \<open>
  The function that \<open>Register\<close> installs for scripts, called with its first argument.
  \<open>CheckTable\<close> raises a type error for anything but a table. The descriptor's fields are
  checked in the order of the code; \<open>name.String()\<close> of a string value is its text, and
  \<open>fmt.Sprintf("handler_%s", name)\<close> prefixes it.
\<close>

definition Register ::
  "(create_call list \<Rightarrow> create_call \<Rightarrow> string option) \<Rightarrow> lvalue \<Rightarrow>
   ApplicationCommandBinding \<times> world \<Rightarrow> failure option \<times> ApplicationCommandBinding \<times> world" where
  "Register perr command bw =
     (case command of
        LTable ca cd \<Rightarrow>
          (case RawGetString cd ''name'' of
             LString name \<Rightarrow>
               (case RawGetString cd ''description'' of
                  LString description \<Rightarrow>
                    (let handler = RawGetString cd ''handler'';
                         options = RawGetString cd ''options''
                     in if handler \<noteq> LNil \<and> Type handler \<noteq> LTFunction then
                          (Some (ArgError 1 '''handler' must be a function if provided''), bw)
                        else if options \<noteq> LNil \<and> Type options \<noteq> LTTable then
                          (Some (ArgError 1 '''options' must be a table if provided''), bw)
                        else
                          (let globalName = ''handler_'' @ name;
                               bw1 = (if handler \<noteq> LNil
                                      then ((fst bw)\<lparr>Commands :=
                                               (Commands (fst bw))(name \<mapsto> globalName)\<rparr>,
                                            SetGlobal globalName handler (snd bw))
                                      else bw);
                               (parsed, bw2) =
                                  (case options of
                                     LTable oa od \<Rightarrow> parseOptions name (ForEach oa od) bw1
                                   | _ \<Rightarrow> (Inr [], bw1))
                           in case parsed of
                                Inl e \<Rightarrow> (Some e, bw2)
                              | Inr commandOptions \<Rightarrow>
                                  (let appCmd = \<lparr>Name = name, Description = description,
                                                 Options = commandOptions\<rparr>;
                                       b = fst bw2; w = snd bw2
                                   in case Session b of
                                        None \<Rightarrow>
                                          (None, b\<lparr>waitRegister := waitRegister b @ [appCmd]\<rparr>, w)
                                      | Some s \<Rightarrow>
                                          (case ApplicationCommandCreate perr s (GuildID b) appCmd w of
                                             (Some err, w') \<Rightarrow>
                                               (Some (RaiseError
                                                  (''failed to register command '' @ quote name
                                                   @ '' with Discord: '' @ err)), b, w')
                                           | (None, w') \<Rightarrow>
                                               (None, b,
                                                slog Info ''Registered command successfully'' w')))))
                | _ \<Rightarrow> (Some (ArgError 1 '''description' must be a string''), bw))
           | _ \<Rightarrow> (Some (ArgError 1 '''name' must be a string''), bw))
      | _ \<Rightarrow> (Some (TypeError 1 LTTable), bw))"

section \<open>The script engine and its runner\<close>

text \<open>
  A protected call of a script value. What a script function does is the parameter \<open>sem\<close>:
  from the function, its arguments and the globals it gives the error it raises, if any,
  and the new globals. Calling a value that is not a function is an error of the engine,
  returned like any other. A script function that calls back into the host while it
  runs (one that registers a command or a callback from inside a handler) is outside
  this model.
\<close>

definition CallByParam ::
  "(nat \<Rightarrow> lvalue list \<Rightarrow> (string \<Rightarrow> lvalue) \<Rightarrow> string option \<times> (string \<Rightarrow> lvalue)) \<Rightarrow>
   lvalue \<Rightarrow> lvalue list \<Rightarrow> world \<Rightarrow> string option \<times> world" where
  "CallByParam sem fn args w =
     (case fn of
        LFunction f \<Rightarrow>
          (let (err, g) = sem f args (globals w)
           in (err, w\<lparr>globals := g, invoked := invoked w @ [(f, args)]\<rparr>))
      | _ \<Rightarrow> (Some ''attempt to call a non-function object'', w))"

text \<open>
  Modelled from the spec: the Runner's \<open>Do\<close> (\<open>utils.GetLuaRunner().Do\<close>), whose source is
  not given. The specification says that it runs the task on the one engine
  and blocks until the task has run, and that a panic raised while the task runs is
  caught at the task boundary and logged. A task returns the panic it ended with, if any.
\<close>

definition Do :: "(world \<Rightarrow> string option \<times> world) \<Rightarrow> world \<Rightarrow> world" where
  "Do task w =
     (case task w of
        (None, w') \<Rightarrow> w'
      | (Some p, w') \<Rightarrow> slog Error p w')"

section \<open>The command binding: dispatch\<close>

definition CanHandleInteraction :: "InteractionCreate \<Rightarrow> bool" where
  "CanHandleInteraction interaction = (iType interaction = InteractionApplicationCommand)"

text \<open>
  \<open>ApplicationCommandData()\<close> panics on an event of another type, and so does its type
  assertion on data of another kind.
\<close>

definition ApplicationCommandData :: "InteractionCreate \<Rightarrow> string + string \<times> ido list" where
  "ApplicationCommandData interaction =
     (if iType interaction \<noteq> InteractionApplicationCommand
      then Inl ''ApplicationCommandData called on interaction of another type''
      else case Data interaction of
             ApplicationCommandInteractionData name opts \<Rightarrow> Inr (name, opts)
           | OtherInteractionData \<Rightarrow> Inl ''interface conversion'')"

text \<open>
  \<open>prepareInteractionTable\<close>. The table of \<open>utils.PrepareInteractionTable\<close> (array part and
  string-keyed part) is the parameter \<open>prep\<close>; the flattened options are stored in it
  under \<open>options\<close>.
\<close>

definition prepareInteractionTable ::
  "(session option \<Rightarrow> InteractionCreate \<Rightarrow> lvalue list \<times> (string \<times> lvalue) list) \<Rightarrow>
   (jvalue \<Rightarrow> string) \<Rightarrow> ApplicationCommandBinding \<Rightarrow> InteractionCreate \<Rightarrow> string + lvalue" where
  "prepareInteractionTable prep fmtv b interaction =
     (let (ta, td) = prep (Session b) interaction
      in case ApplicationCommandData interaction of
           Inl p \<Rightarrow> Inl p
         | Inr (name, opts) \<Rightarrow>
             (case buildOptionsTable fmtv None opts of
                Inl p \<Rightarrow> Inl p
              | Inr T \<Rightarrow> Inr (LTable ta (RawSetString td ''options'' (LTable [] T)))))"

text \<open>
  \<open>HandleInteraction\<close>. The result is \<open>Inr None\<close> for a nil error, \<open>Inr (Some msg)\<close> for a
  returned error and \<open>Inl\<close> for a panic.
\<close>

definition HandleInteraction ::
  "(nat \<Rightarrow> lvalue list \<Rightarrow> (string \<Rightarrow> lvalue) \<Rightarrow> string option \<times> (string \<Rightarrow> lvalue)) \<Rightarrow>
   (session option \<Rightarrow> InteractionCreate \<Rightarrow> lvalue list \<times> (string \<times> lvalue) list) \<Rightarrow>
   (jvalue \<Rightarrow> string) \<Rightarrow> ApplicationCommandBinding \<Rightarrow> InteractionCreate \<Rightarrow> world \<Rightarrow>
   (failure + string option) \<times> world" where
  "HandleInteraction sem prep fmtv b interaction w0 =
     (let w = slog Info ''Handling command interaction'' w0
      in case ApplicationCommandData interaction of
           Inl p \<Rightarrow> (Inl (GoPanic p), w)
         | Inr (name, opts) \<Rightarrow>
             (let commandName = commandName_loop name opts
              in case Commands b commandName of
                   None \<Rightarrow>
                     (Inr (Some (''command '' @ quote commandName @ '' not registered'')),
                      slog Warn ''Command not registered'' w)
                 | Some globalName \<Rightarrow>
                     (Inr None,
                      Do (\<lambda>L.
                            let L1 = slog Debug ''Executing Lua handler'' L;
                                fn = globals L1 globalName
                            in if fn = LNil then
                                 (None, slog Error ''Lua handler not implemented'' L1)
                               else
                                 (case prepareInteractionTable prep fmtv b interaction of
                                    Inl p \<Rightarrow> (Some p, L1)
                                  | Inr interactionTable \<Rightarrow>
                                      (case CallByParam sem fn [interactionTable] L1 of
                                         (Some err, L2) \<Rightarrow>
                                           (None,
                                            slog Error ''Error executing Lua command handler'' L2)
                                       | (None, L2) \<Rightarrow>
                                           (None,
                                            slog Info ''Command handled successfully'' L2))))
                         w)))"

section \<open>The manager\<close>

text \<open>
  Modelled from the spec: the bindings other than the command binding, whose sources are
  not given. The specification says that they take no part in the dispatch of
  command events, so \<open>Bindings\<close> lists the command bindings only, in the order in which
  the iteration over the groups visits them. The manager also holds the names of the ready
  callbacks.
\<close>

record LuaManager =
  Bindings :: "ApplicationCommandBinding list"
  OnReadyCbs :: "string list"

text \<open>Decimal text of an integer, as \<open>%d\<close> prints it.\<close>

fun digits :: "nat \<Rightarrow> string" where
  "digits n = (if n < 10 then [''0123456789'' ! n] else digits (n div 10) @ [''0123456789'' ! (n mod 10)])"

definition show_int :: "int \<Rightarrow> string" where
  "show_int i = (if i < 0 then CHR ''-'' # digits (nat (- i)) else digits (nat i))"

text \<open>
  The function installed as \<open>on_ready\<close> by \<open>addReady\<close>, called with its first argument.
  The reading of the clock, \<open>time.Now().Unix()\<close>, is the parameter \<open>now\<close>.
\<close>

definition on_ready ::
  "int \<Rightarrow> lvalue \<Rightarrow> LuaManager \<times> world \<Rightarrow> failure option \<times> LuaManager \<times> world" where
  "on_ready now arg mw =
     (case arg of
        LFunction f \<Rightarrow>
          (let globalName = ''on_ready_handler_'' @ show_int now
           in (None,
               (fst mw)\<lparr>OnReadyCbs := OnReadyCbs (fst mw) @ [globalName]\<rparr>,
               SetGlobal globalName (LFunction f) (snd mw)))
      | _ \<Rightarrow> (Some (TypeError 1 LTFunction), mw))"

text \<open>The nested loop of \<open>HandleCommand\<close> over the bindings.\<close>

fun HandleCommand_loop ::
  "(nat \<Rightarrow> lvalue list \<Rightarrow> (string \<Rightarrow> lvalue) \<Rightarrow> string option \<times> (string \<Rightarrow> lvalue)) \<Rightarrow>
   (session option \<Rightarrow> InteractionCreate \<Rightarrow> lvalue list \<times> (string \<times> lvalue) list) \<Rightarrow>
   (jvalue \<Rightarrow> string) \<Rightarrow> ApplicationCommandBinding list \<Rightarrow> InteractionCreate \<Rightarrow> world \<Rightarrow>
   failure option \<times> world" where
  "HandleCommand_loop sem prep fmtv [] i w =
     (None, slog Warn ''Command binding not found'' w)"
| "HandleCommand_loop sem prep fmtv (b # bs) i w =
     (if CanHandleInteraction i then
        (case HandleInteraction sem prep fmtv b i
                (slog Debug ''Binding matched for interaction'' w) of
           (Inl p, w') \<Rightarrow> (Some p, w')
         | (Inr None, w') \<Rightarrow> (None, w')
         | (Inr (Some err), w') \<Rightarrow>
             HandleCommand_loop sem prep fmtv bs i
               (slog Warn ''Error handling interaction with binding'' w'))
      else HandleCommand_loop sem prep fmtv bs i w)"

definition HandleCommand ::
  "(nat \<Rightarrow> lvalue list \<Rightarrow> (string \<Rightarrow> lvalue) \<Rightarrow> string option \<times> (string \<Rightarrow> lvalue)) \<Rightarrow>
   (session option \<Rightarrow> InteractionCreate \<Rightarrow> lvalue list \<times> (string \<times> lvalue) list) \<Rightarrow>
   (jvalue \<Rightarrow> string) \<Rightarrow> LuaManager \<Rightarrow> InteractionCreate \<Rightarrow> world \<Rightarrow> failure option \<times> world" where
  "HandleCommand sem prep fmtv m i w = HandleCommand_loop sem prep fmtv (Bindings m) i w"

text \<open>\<open>setSession\<close>: every binding gets the session; a panic ends the loop.\<close>

fun setSession ::
  "(create_call list \<Rightarrow> create_call \<Rightarrow> string option) \<Rightarrow> session option \<Rightarrow>
   ApplicationCommandBinding list \<Rightarrow> world \<Rightarrow>
   failure option \<times> ApplicationCommandBinding list \<times> world" where
  "setSession perr session [] w = (None, [], w)"
| "setSession perr session (b # bs) w =
     (case SetSession perr session b w of
        (Some e, b', w') \<Rightarrow> (Some e, b' # bs, w')
      | (None, b', w') \<Rightarrow>
          (case setSession perr session bs w' of
             (e, bs', w'') \<Rightarrow> (e, b' # bs', w'')))"

text \<open>
  The body of the loop of \<open>ReadyHandler\<close>: one task on the runner for each callback name.
\<close>

definition readyTask ::
  "(nat \<Rightarrow> lvalue list \<Rightarrow> (string \<Rightarrow> lvalue) \<Rightarrow> string option \<times> (string \<Rightarrow> lvalue)) \<Rightarrow>
   string \<Rightarrow> world \<Rightarrow> string option \<times> world" where
  "readyTask sem cb L =
     (let fn = globals L cb
      in if fn = LNil then (None, slog Error ''Lua on_ready handler not found'' L)
         else (case CallByParam sem fn [] L of
                 (Some err, L') \<Rightarrow> (None, slog Error ''Error executing Lua on_ready handler'' L')
               | (None, L') \<Rightarrow> (None, L')))"

fun ReadyHandler_loop ::
  "(nat \<Rightarrow> lvalue list \<Rightarrow> (string \<Rightarrow> lvalue) \<Rightarrow> string option \<times> (string \<Rightarrow> lvalue)) \<Rightarrow>
   string list \<Rightarrow> world \<Rightarrow> world" where
  "ReadyHandler_loop sem [] w = w"
| "ReadyHandler_loop sem (cb # cbs) w = ReadyHandler_loop sem cbs (Do (readyTask sem cb) w)"

definition ReadyHandler ::
  "(create_call list \<Rightarrow> create_call \<Rightarrow> string option) \<Rightarrow>
   (nat \<Rightarrow> lvalue list \<Rightarrow> (string \<Rightarrow> lvalue) \<Rightarrow> string option \<times> (string \<Rightarrow> lvalue)) \<Rightarrow>
   session option \<Rightarrow> LuaManager \<Rightarrow> world \<Rightarrow> failure option \<times> LuaManager \<times> world" where
  "ReadyHandler perr sem s m w =
     (case setSession perr s (Bindings m) (slog Info ''Handling ready event'' w) of
        (Some e, bs, w') \<Rightarrow> (Some e, m\<lparr>Bindings := bs\<rparr>, w')
      | (None, bs, w') \<Rightarrow> (None, m\<lparr>Bindings := bs\<rparr>, ReadyHandler_loop sem (OnReadyCbs m) w'))"

section \<open>Marshalling of components\<close>

datatype ButtonStyle =
  PrimaryButton | SecondaryButton | SuccessButton | DangerButton | LinkButton

record SelectMenuOption =
  smo_Label :: string
  smo_Value :: string

datatype MessageComponent =
    Button (btn_Label: string) (btn_CustomID: string) (btn_Style: ButtonStyle) (btn_Disabled: bool)
  | SelectMenu string string "SelectMenuOption list" bool
  | ActionsRow "MessageComponent list"

text \<open>The \<open>disabled\<close> field counts only when it is a boolean.\<close>

definition disabledOf :: "(string \<times> lvalue) list \<Rightarrow> bool" where
  "disabledOf d =
     (let disabledRaw = RawGetString d ''disabled''
      in if Type disabledRaw = LTBool then LVAsBool disabledRaw else False)"

fun selectOptions_loop :: "(lvalue \<Rightarrow> string) \<Rightarrow> lvalue list \<Rightarrow> SelectMenuOption list" where
  "selectOptions_loop other [] = []"
| "selectOptions_loop other (value # values) =
     (case value of
        LTable a d \<Rightarrow>
          \<lparr>smo_Label = String other (RawGetString d ''label''),
           smo_Value = String other (RawGetString d ''value'')\<rparr>
          # selectOptions_loop other values
      | _ \<Rightarrow> selectOptions_loop other values)"

text \<open>The loop of \<open>ParseComponents\<close> over the entries of the table.\<close>

fun ParseComponents_loop :: "(lvalue \<Rightarrow> string) \<Rightarrow> lvalue list \<Rightarrow> MessageComponent list" where
  "ParseComponents_loop other [] = []"
| "ParseComponents_loop other (value # values) =
     (case value of
        LTable a d \<Rightarrow>
          (let componentType = String other (RawGetString d ''type'')
           in if componentType = ''button'' then
                Button (String other (RawGetString d ''label''))
                       (String other (RawGetString d ''custom_id''))
                       PrimaryButton (disabledOf d)
                # ParseComponents_loop other values
              else if componentType = ''select'' then
                (case RawGetString d ''options'' of
                   LTable oa od \<Rightarrow>
                     SelectMenu (String other (RawGetString d ''placeholder''))
                                (String other (RawGetString d ''custom_id''))
                                (selectOptions_loop other (ForEach oa od))
                                (disabledOf d)
                     # ParseComponents_loop other values
                 | _ \<Rightarrow> ParseComponents_loop other values)
              else ParseComponents_loop other values)
      | _ \<Rightarrow> ParseComponents_loop other values)"

definition ParseComponents ::
  "(lvalue \<Rightarrow> string) \<Rightarrow> lvalue list \<times> (string \<times> lvalue) list \<Rightarrow>
   string + MessageComponent list" where
  "ParseComponents other table =
     (let components = ParseComponents_loop other (ForEach (fst table) (snd table))
      in if length components > 0
         then Inr [ActionsRow components]
         else Inl ''no valid components found'')"

text \<open>
  An entry of a component table counts as valid when \<open>ParseComponents\<close> makes a component
  of it: a table of type \<open>button\<close>, or a table of type \<open>select\<close> whose \<open>options\<close> are a table.
\<close>

definition validComponent :: "(lvalue \<Rightarrow> string) \<Rightarrow> lvalue \<Rightarrow> bool" where
  "validComponent other v =
     (case v of
        LTable a d \<Rightarrow>
          String other (RawGetString d ''type'') = ''button'' \<or>
          (String other (RawGetString d ''type'') = ''select'' \<and>
           Type (RawGetString d ''options'') = LTTable)
      | _ \<Rightarrow> False)"

section \<open>The flattening as the specification words it\<close>

text \<open>
  The options of the deepest subcommand level: when the list holds a subcommand with an
  option list, the deepest level of that list, and otherwise the list itself.
\<close>

fun spec_deepest_level :: "ido list \<Rightarrow> ido list \<Rightarrow> ido list" where
  "spec_deepest_level level [] = level"
| "spec_deepest_level level (DataOption name ty val sub # rest) =
     (if ty = ApplicationCommandOptionSubCommand then
        (case sub of
           Some subOptions \<Rightarrow> spec_deepest_level subOptions subOptions
         | None \<Rightarrow> spec_deepest_level level rest)
      else spec_deepest_level level rest)"

text \<open>The mapping that holds the options of the deepest level only.\<close>

definition spec_flatten :: "(jvalue \<Rightarrow> string) \<Rightarrow> ido list \<Rightarrow> (string \<times> lvalue) list" where
  "spec_flatten fmtv opts =
     fold (\<lambda>opt t. case optionValue fmtv opt of
                      Inr v \<Rightarrow> RawSetString t (ido_Name opt) v
                    | Inl p \<Rightarrow> t)
          (filter (\<lambda>opt. ido_Type opt \<noteq> ApplicationCommandOptionSubCommand)
                  (spec_deepest_level opts opts))
          []"

text \<open>The table that \<open>buildOptionsTable\<close> writes into: a new one when it is given nil.\<close>

definition tableOf :: "(string \<times> lvalue) list option \<Rightarrow> (string \<times> lvalue) list" where
  "tableOf T = (case T of None \<Rightarrow> [] | Some t \<Rightarrow> t)"

text \<open>
  The option of a level that determines the value under the key \<open>k\<close>: the last option
  of the list that is not of subcommand type and has the name \<open>k\<close>.
\<close>

fun lastNamed :: "string \<Rightarrow> ido list \<Rightarrow> ido option" where
  "lastNamed k [] = None"
| "lastNamed k (opt # opts) =
     (case lastNamed k opts of
        Some later \<Rightarrow> Some later
      | None \<Rightarrow>
          (if ido_Type opt \<noteq> ApplicationCommandOptionSubCommand \<and> ido_Name opt = k
           then Some opt else None))"

section \<open>Initial states\<close>

text \<open>A world in which nothing has happened yet, and a binding as it is created.\<close>

definition freshWorld :: world where
  "freshWorld = \<lparr>globals = (\<lambda>name. LNil), calls = [], invoked = [], logs = []\<rparr>"

definition freshBinding :: ApplicationCommandBinding where
  "freshBinding = \<lparr>Session = None, GuildID = ''guild'', Commands = Map.empty, waitRegister = []\<rparr>"

text \<open>The global name that \<open>on_ready\<close> mints at a clock reading.\<close>

definition onReadyName :: "int \<Rightarrow> string" where
  "onReadyName now = ''on_ready_handler_'' @ show_int now"

text \<open>
  A script that registers ready callbacks one after the other: the clock reading and the
  function of each registration.
\<close>

fun on_ready_all :: "(int \<times> nat) list \<Rightarrow> LuaManager \<times> world \<Rightarrow> LuaManager \<times> world" where
  "on_ready_all [] mw = mw"
| "on_ready_all ((now, f) # regs) mw = on_ready_all regs (snd (on_ready now (LFunction f) mw))"

text \<open>A manager with its command binding and no ready callback yet.\<close>

definition freshManager :: LuaManager where
  "freshManager = \<lparr>Bindings = [freshBinding], OnReadyCbs = []\<rparr>"

section \<open>The steps of \<open>parseOptions\<close>\<close>

text \<open>
  The two stores that \<open>parseOptions\<close> makes for a subcommand: the handler under its
  global name, and the command record under the key joined from the parent name and the
  subcommand name.
\<close>

definition storeHandler ::
  "string \<Rightarrow> string \<Rightarrow> nat \<Rightarrow> ApplicationCommandBinding \<times> world \<Rightarrow>
   ApplicationCommandBinding \<times> world" where
  "storeHandler parentName name h bw =
     ((fst bw)\<lparr>Commands := (Commands (fst bw))(parentName @ ''_'' @ name
                                \<mapsto> ''handler_'' @ parentName @ ''_'' @ name)\<rparr>,
      SetGlobal (''handler_'' @ parentName @ ''_'' @ name) (LFunction h) (snd bw))"

text \<open>The end of the loop body: the option is appended and the loop goes on.\<close>

definition finishOption ::
  "string \<Rightarrow> lvalue list \<Rightarrow> aco \<Rightarrow> ApplicationCommandBinding \<times> world \<Rightarrow>
   (failure + aco list) \<times> ApplicationCommandBinding \<times> world" where
  "finishOption parentName vals opt bw =
     (case parseOptions parentName vals
             (fst bw, slog Debug ''Parsed command option'' (snd bw)) of
        (Inl e, bw') \<Rightarrow> (Inl e, bw')
      | (Inr opts, bw') \<Rightarrow> (Inr (opt # opts), bw'))"

text \<open>
  An entry of an option list that makes \<open>parseOptions\<close> raise when the loop reaches it: a
  table without a string name, a string description or a numeric type, or a subcommand
  without a handler function.
\<close>

definition raisingOption :: "lvalue \<Rightarrow> bool" where
  "raisingOption v =
     (case v of
        LTable a d \<Rightarrow>
          Type (RawGetString d ''name'') \<noteq> LTString \<or>
          Type (RawGetString d ''description'') \<noteq> LTString \<or>
          (case RawGetString d ''type'' of
             LNumber t \<Rightarrow>
               uint8_of t = ApplicationCommandOptionSubCommand \<and>
               Type (RawGetString d ''handler'') \<noteq> LTFunction
           | _ \<Rightarrow> True)
      | _ \<Rightarrow> False)"

text \<open>A subcommand option that lacks a handler function and is well-formed otherwise.\<close>

definition subcommandWithoutHandler :: "lvalue \<Rightarrow> bool" where
  "subcommandWithoutHandler v =
     (case v of
        LTable a d \<Rightarrow>
          Type (RawGetString d ''name'') = LTString \<and>
          Type (RawGetString d ''description'') = LTString \<and>
          RawGetString d ''type'' = LNumber 1 \<and>
          Type (RawGetString d ''handler'') \<noteq> LTFunction
      | _ \<Rightarrow> False)"

section \<open>The steps of \<open>Register\<close>\<close>

text \<open>The store of the command's own handler, made when the descriptor has one.\<close>

definition storeCommandHandler ::
  "string \<Rightarrow> lvalue \<Rightarrow> ApplicationCommandBinding \<times> world \<Rightarrow>
   ApplicationCommandBinding \<times> world" where
  "storeCommandHandler name handler bw =
     (if handler \<noteq> LNil
      then ((fst bw)\<lparr>Commands := (Commands (fst bw))(name \<mapsto> ''handler_'' @ name)\<rparr>,
            SetGlobal (''handler_'' @ name) handler (snd bw))
      else bw)"

text \<open>The parse of the descriptor's options, when it has any.\<close>

definition parseCommandOptions ::
  "string \<Rightarrow> lvalue \<Rightarrow> ApplicationCommandBinding \<times> world \<Rightarrow>
   (failure + aco list) \<times> ApplicationCommandBinding \<times> world" where
  "parseCommandOptions name options bw =
     (case options of
        LTable oa od \<Rightarrow> parseOptions name (ForEach oa od) bw
      | _ \<Rightarrow> (Inr [], bw))"

text \<open>
  The end of \<open>Register\<close>: without a session the registration is queued, with a session
  the platform is called at once.
\<close>

definition registerOrQueue ::
  "(create_call list \<Rightarrow> create_call \<Rightarrow> string option) \<Rightarrow> ApplicationCommand \<Rightarrow>
   ApplicationCommandBinding \<times> world \<Rightarrow> failure option \<times> ApplicationCommandBinding \<times> world" where
  "registerOrQueue perr appCmd bw =
     (case Session (fst bw) of
        None \<Rightarrow> (None, (fst bw)\<lparr>waitRegister := waitRegister (fst bw) @ [appCmd]\<rparr>, snd bw)
      | Some s \<Rightarrow>
          (case ApplicationCommandCreate perr s (GuildID (fst bw)) appCmd (snd bw) of
             (Some err, w') \<Rightarrow>
               (Some (RaiseError (''failed to register command '' @ quote (Name appCmd)
                                  @ '' with Discord: '' @ err)), fst bw, w')
           | (None, w') \<Rightarrow> (None, fst bw, slog Info ''Registered command successfully'' w')))"

section \<open>Properties of the dispatch key\<close>

text \<open>The binding used in the examples is the one the constructor makes.\<close>

lemma freshBinding_new: "fst (NewApplicationCommandBinding ''guild'' w) = freshBinding"
  by (simp add: NewApplicationCommandBinding_def freshBinding_def)

lemma commandName_loop_append:
  "\<forall>opt\<in>set pre. ido_Type opt \<noteq> ApplicationCommandOptionSubCommand \<Longrightarrow>
   commandName_loop n (pre @ rest) = commandName_loop n rest"
  by (induction pre) auto

lemma commandName_loop_none:
  "\<forall>opt\<in>set opts. ido_Type opt \<noteq> ApplicationCommandOptionSubCommand \<Longrightarrow>
   commandName_loop n opts = n"
  by (induction opts) auto

lemma commandName_loop_nested:
  "commandName_loop n (map (\<lambda>opt. DataOption (ido_Name opt) (ido_Type opt) (v opt) (sub opt)) opts)
   = commandName_loop n opts"
  by (induction opts) auto

section \<open>Properties of the flattening\<close>

lemma optionValue_not_nil: "optionValue fmtv opt = Inr v \<Longrightarrow> v \<noteq> LNil"
  by (auto simp: optionValue_def split: if_splits jvalue.splits)

lemma keys_RawSetString:
  "v \<noteq> LNil \<Longrightarrow> fst ` set (RawSetString t k v) = insert k (fst ` set t)"
  by (simp add: RawSetString_def dom_update)

lemma buildOptionsTable_tableOf:
  "buildOptionsTable fmtv T opts = buildOptionsTable fmtv (Some (tableOf T)) opts"
proof (cases opts)
  case Nil
  then show ?thesis by (cases T) (simp_all add: tableOf_def)
next
  case (Cons a list)
  then show ?thesis by (cases a; cases T) (simp_all add: tableOf_def)
qed

text \<open>
  An option that is not of subcommand type is written under its own name and never
  descended into; that holds for a subcommand group too, whose value is the text of its
  decoded value.
\<close>

lemma buildOptionsTable_not_subcommand:
  "ty \<noteq> ApplicationCommandOptionSubCommand \<Longrightarrow>
   optionValue fmtv (DataOption name ty val sub) = Inr v \<Longrightarrow>
   buildOptionsTable fmtv T (DataOption name ty val sub # options) =
     buildOptionsTable fmtv (Some (RawSetString (tableOf T) name v)) options"
  by (simp add: tableOf_def)

lemma buildOptionsTable_subcommand_group:
  "buildOptionsTable fmtv T
     (DataOption name ApplicationCommandOptionSubCommandGroup val sub # options) =
   buildOptionsTable fmtv (Some (RawSetString (tableOf T) name (LString (fmtv val)))) options"
  by (simp add: tableOf_def optionValue_def)

lemma buildOptionsTable_keys_mono:
  "buildOptionsTable fmtv T opts = Inr t' \<Longrightarrow> fst ` set (tableOf T) \<subseteq> fst ` set t'"
proof (induction fmtv T opts rule: buildOptionsTable.induct)
  case (1 fmtv T)
  then show ?case by (simp add: tableOf_def)
next
  case (2 fmtv T name ty val sub options)
  show ?case
  proof (cases "ty = ApplicationCommandOptionSubCommand")
    case True
    with 2 show ?thesis
      by (cases sub) (auto simp: Let_def tableOf_def)
  next
    case False
    with "2.prems" obtain v where v: "optionValue fmtv (DataOption name ty val sub) = Inr v"
      and r: "buildOptionsTable fmtv (Some (RawSetString (tableOf T) name v)) options = Inr t'"
      by (auto simp: Let_def tableOf_def split: sum.splits)
    from "2.IH"(3) [OF refl False v] r
    have "fst ` set (RawSetString (tableOf T) name v) \<subseteq> fst ` set t'"
      by (simp add: tableOf_def)
    with optionValue_not_nil [OF v] show ?thesis
      by (simp add: keys_RawSetString)
  qed
qed

lemma buildOptionsTable_flat_keys:
  "\<forall>opt\<in>set opts. \<not> (ido_Type opt = ApplicationCommandOptionSubCommand \<and> ido_Options opt \<noteq> None) \<Longrightarrow>
   buildOptionsTable fmtv T opts = Inr t' \<Longrightarrow>
   fst ` set t' = fst ` set (tableOf T) \<union>
     set (map ido_Name (filter (\<lambda>opt. ido_Type opt \<noteq> ApplicationCommandOptionSubCommand) opts))"
proof (induction opts arbitrary: T)
  case Nil
  then show ?case by (simp add: tableOf_def)
next
  case (Cons a opts)
  obtain name ty val sub where a: "a = DataOption name ty val sub" by (cases a)
  show ?case
  proof (cases "ty = ApplicationCommandOptionSubCommand")
    case True
    with Cons.prems a have "sub = None" by simp
    with True a Cons.prems Cons.IH [of "Some (tableOf T)"] show ?thesis
      by (auto simp: Let_def tableOf_def)
  next
    case False
    with Cons.prems(2) a obtain v where v: "optionValue fmtv a = Inr v"
      and r: "buildOptionsTable fmtv (Some (RawSetString (tableOf T) name v)) opts = Inr t'"
      by (auto simp: Let_def tableOf_def split: sum.splits)
    from Cons.IH [OF _ r] Cons.prems(1)
    have "fst ` set t' = fst ` set (RawSetString (tableOf T) name v) \<union>
           set (map ido_Name (filter (\<lambda>opt. ido_Type opt \<noteq> ApplicationCommandOptionSubCommand) opts))"
      by (simp add: tableOf_def)
    with optionValue_not_nil [OF v] False a show ?thesis
      by (simp add: keys_RawSetString)
  qed
qed

lemma map_of_RawSetString:
  "v \<noteq> LNil \<Longrightarrow> map_of (RawSetString t k v) = (map_of t)(k \<mapsto> v)"
  by (simp add: RawSetString_def update_conv')

lemma RawGetString_RawSetString: "RawGetString (RawSetString d k v) k = v"
  by (simp add: RawGetString_def RawSetString_def update_conv' delete_conv')

text \<open>
  The flattening of a list that begins with options holding no subcommand with an
  option list: it fails when the flattening of the beginning fails, and otherwise goes
  on with the rest in the table that the beginning has filled.
\<close>

lemma buildOptionsTable_append:
  "\<forall>opt\<in>set pre. \<not> (ido_Type opt = ApplicationCommandOptionSubCommand \<and> ido_Options opt \<noteq> None) \<Longrightarrow>
   buildOptionsTable fmtv T (pre @ rest) =
     (case buildOptionsTable fmtv T pre of
        Inl p \<Rightarrow> Inl p
      | Inr t1 \<Rightarrow> buildOptionsTable fmtv (Some t1) rest)"
proof (induction pre arbitrary: T)
  case Nil
  then show ?case using buildOptionsTable_tableOf [of fmtv T rest] by (simp add: tableOf_def)
next
  case (Cons a pre)
  then show ?case
    by (cases a) (auto simp: Let_def split: if_splits option.splits sum.splits)
qed

text \<open>
  At a level that holds no subcommand with an option list, the value under a key is the
  value of the last option of that name, and the value the table had before when no
  option has that name.
\<close>

lemma buildOptionsTable_flat_values:
  "\<forall>opt\<in>set opts. \<not> (ido_Type opt = ApplicationCommandOptionSubCommand \<and> ido_Options opt \<noteq> None) \<Longrightarrow>
   buildOptionsTable fmtv T opts = Inr t' \<Longrightarrow>
   map_option Inr (map_of t' k) =
     (case lastNamed k opts of
        None \<Rightarrow> map_option Inr (map_of (tableOf T) k)
      | Some opt \<Rightarrow> Some (optionValue fmtv opt))"
proof (induction opts arbitrary: T)
  case Nil
  then show ?case by (simp add: tableOf_def)
next
  case (Cons a opts)
  obtain name ty val sub where a: "a = DataOption name ty val sub" by (cases a)
  show ?case
  proof (cases "ty = ApplicationCommandOptionSubCommand")
    case True
    with Cons.prems a have "sub = None" by simp
    with True a Cons.prems Cons.IH [of "Some (tableOf T)"] show ?thesis
      by (auto simp: Let_def tableOf_def split: option.splits)
  next
    case False
    with Cons.prems(2) a obtain v where v: "optionValue fmtv a = Inr v"
      and r: "buildOptionsTable fmtv (Some (RawSetString (tableOf T) name v)) opts = Inr t'"
      by (auto simp: Let_def tableOf_def split: sum.splits)
    from Cons.IH [OF _ r] Cons.prems(1)
    have "map_option Inr (map_of t' k) =
     (case lastNamed k opts of
        None \<Rightarrow> map_option Inr (map_of (RawSetString (tableOf T) name v) k)
      | Some opt \<Rightarrow> Some (optionValue fmtv opt))"
      by (simp add: tableOf_def cong: option.case_cong)
    with optionValue_not_nil [OF v] False a v show ?thesis
      by (auto simp: map_of_RawSetString split: option.splits)
  qed
qed

text \<open>
  With one subcommand with an option list in a level, the value under a key is that of
  the last option of that name among the subcommand's options, when there is one; that
  of the last option of that name before the subcommand otherwise; and the options after
  the subcommand give nothing.
\<close>

lemma buildOptionsTable_two_levels:
  assumes pre: "\<forall>opt\<in>set pre. \<not> (ido_Type opt = ApplicationCommandOptionSubCommand \<and> ido_Options opt \<noteq> None)"
    and sub: "\<forall>opt\<in>set subOptions. \<not> (ido_Type opt = ApplicationCommandOptionSubCommand \<and> ido_Options opt \<noteq> None)"
    and r: "buildOptionsTable fmtv None
              (pre @ DataOption name ApplicationCommandOptionSubCommand val (Some subOptions) # post)
            = Inr t'"
  shows "map_option Inr (map_of t' k) =
     (case lastNamed k subOptions of
        Some opt \<Rightarrow> Some (optionValue fmtv opt)
      | None \<Rightarrow>
          (case lastNamed k pre of
             Some opt \<Rightarrow> Some (optionValue fmtv opt)
           | None \<Rightarrow> None))"
proof -
  from r buildOptionsTable_append [OF pre, of fmtv None]
  obtain t1 where t1: "buildOptionsTable fmtv None pre = Inr t1"
    and t': "buildOptionsTable fmtv (Some t1) subOptions = Inr t'"
    by (auto split: sum.splits)
  from buildOptionsTable_flat_values [OF pre t1, of k]
  have 1: "map_option Inr (map_of t1 k) =
     (case lastNamed k pre of None \<Rightarrow> None | Some opt \<Rightarrow> Some (optionValue fmtv opt))"
    by (simp add: tableOf_def cong: option.case_cong)
  from buildOptionsTable_flat_values [OF sub t', of k]
  have "map_option Inr (map_of t' k) =
     (case lastNamed k subOptions of
        None \<Rightarrow> map_option Inr (map_of t1 k)
      | Some opt \<Rightarrow> Some (optionValue fmtv opt))"
    by (simp add: tableOf_def cong: option.case_cong)
  with 1 show ?thesis by (simp split: option.splits)
qed

text \<open>The values are typed by the kind of the option; any other kind is given as text.\<close>

lemma optionValue_typed:
  "(- (2 ^ 63) \<le> truncateToZero x \<longrightarrow> truncateToZero x < 2 ^ 63 \<longrightarrow>
      optionValue fmtv (DataOption oname ApplicationCommandOptionInteger (JNumber x) osub)
        = Inr (LNumber (of_int (truncateToZero x))))
   \<and> optionValue fmtv (DataOption oname ApplicationCommandOptionBoolean (JBool bv) osub)
        = Inr (LBool bv)
   \<and> optionValue fmtv (DataOption oname ApplicationCommandOptionString (JString sv) osub)
        = Inr (LString sv)
   \<and> optionValue fmtv (DataOption oname ApplicationCommandOptionNumber (JNumber y) osub)
        = Inr (LNumber y)
   \<and> (oty \<noteq> ApplicationCommandOptionInteger \<longrightarrow>
      oty \<noteq> ApplicationCommandOptionBoolean \<longrightarrow>
      oty \<noteq> ApplicationCommandOptionString \<longrightarrow>
      oty \<noteq> ApplicationCommandOptionNumber \<longrightarrow>
      optionValue fmtv (DataOption oname oty oval osub) = Inr (LString (fmtv oval)))"
  by (simp add: optionValue_def int64_of_def)

section \<open>Properties of the component marshalling\<close>

lemma ParseComponents_loop_append:
  "ParseComponents_loop other (xs @ ys) = ParseComponents_loop other xs @ ParseComponents_loop other ys"
  by (induction xs) (auto simp: Let_def split: lvalue.splits)

lemma ParseComponents_loop_empty:
  "(ParseComponents_loop other vs = []) = (\<forall>v\<in>set vs. \<not> validComponent other v)"
  by (induction vs) (auto simp: Let_def validComponent_def split: lvalue.splits)

lemma ParseComponents_loop_button:
  "String other (RawGetString d ''type'') = ''button'' \<Longrightarrow>
   ParseComponents_loop other [LTable a d] =
     [Button (String other (RawGetString d ''label'')) (String other (RawGetString d ''custom_id''))
        PrimaryButton (disabledOf d)]"
  by simp

text \<open>
  C8: a component table whose only valid entry is a button with label \<open>Go\<close> and custom
  id \<open>go_btn\<close> marshals to exactly one action row holding exactly one button with that
  label, that id and the primary style; and \<open>ParseComponents\<close> gives the error
  \<open>no valid components found\<close>, and no components, exactly when the table has no valid
  entry.
\<close>

theorem C8_ParseComponents:
  "(ForEach (fst table) (snd table) = pre @ LTable a d # post \<longrightarrow>
    (\<forall>v\<in>set (pre @ post). \<not> validComponent other v) \<longrightarrow>
    RawGetString d ''type'' = LString ''button'' \<longrightarrow>
    RawGetString d ''label'' = LString ''Go'' \<longrightarrow>
    RawGetString d ''custom_id'' = LString ''go_btn'' \<longrightarrow>
    ParseComponents other table =
      Inr [ActionsRow [Button ''Go'' ''go_btn'' PrimaryButton (disabledOf d)]])
   \<and> ((ParseComponents other table = Inl ''no valid components found'')
        = (\<forall>v\<in>set (ForEach (fst table) (snd table)). \<not> validComponent other v))"
proof (intro conjI impI)
  assume fe: "ForEach (fst table) (snd table) = pre @ LTable a d # post"
    and inv: "\<forall>v\<in>set (pre @ post). \<not> validComponent other v"
    and ty: "RawGetString d ''type'' = LString ''button''"
    and lb: "RawGetString d ''label'' = LString ''Go''"
    and ci: "RawGetString d ''custom_id'' = LString ''go_btn''"
  from inv have "ParseComponents_loop other pre = []" "ParseComponents_loop other post = []"
    by (simp_all add: ParseComponents_loop_empty)
  moreover have "ParseComponents_loop other [LTable a d] =
      [Button ''Go'' ''go_btn'' PrimaryButton (disabledOf d)]"
    using ty lb ci by (simp add: String_def)
  ultimately have "ParseComponents_loop other (pre @ [LTable a d] @ post) =
      [Button ''Go'' ''go_btn'' PrimaryButton (disabledOf d)]"
    by (simp only: ParseComponents_loop_append append_Nil append_Nil2)
  with fe show "ParseComponents other table =
      Inr [ActionsRow [Button ''Go'' ''go_btn'' PrimaryButton (disabledOf d)]]"
    by (simp add: ParseComponents_def)
next
  show "(ParseComponents other table = Inl ''no valid components found'')
        = (\<forall>v\<in>set (ForEach (fst table) (snd table)). \<not> validComponent other v)"
    by (simp add: ParseComponents_def Let_def flip: ParseComponents_loop_empty)
qed

theorem C8_ParseComponents_witness:
  "ParseComponents (\<lambda>v. [])
     ([LTable [] [(''type'', LString ''button''), (''label'', LString ''Go''),
                  (''custom_id'', LString ''go_btn'')]], [])
   = Inr [ActionsRow [Button ''Go'' ''go_btn'' PrimaryButton False]]
   \<and> ParseComponents (\<lambda>v. []) ([LNumber 1, LTable [] [(''type'', LString ''text'')]], [])
     = Inl ''no valid components found''"
proof -
  have 1: "ParseComponents (\<lambda>v. [])
     ([LTable [] [(''type'', LString ''button''), (''label'', LString ''Go''),
                  (''custom_id'', LString ''go_btn'')]], [])
   = Inr [ActionsRow [Button ''Go'' ''go_btn'' PrimaryButton False]]"
    using C8_ParseComponents
      [of "([LTable [] [(''type'', LString ''button''), (''label'', LString ''Go''),
                  (''custom_id'', LString ''go_btn'')]], [])" "[]" "[]"
          "[(''type'', LString ''button''), (''label'', LString ''Go''),
                  (''custom_id'', LString ''go_btn'')]" "[]" "\<lambda>v. []"]
    by (simp add: ForEach_def RawGetString_def disabledOf_def)
  have 2: "ParseComponents (\<lambda>v. []) ([LNumber 1, LTable [] [(''type'', LString ''text'')]], [])
     = Inl ''no valid components found''"
    using C8_ParseComponents
      [of "([LNumber 1, LTable [] [(''type'', LString ''text'')]], [])" _ _ _ _ "\<lambda>v. []"]
    by (simp add: ForEach_def RawGetString_def validComponent_def String_def)
  from 1 2 show ?thesis by simp
qed

section \<open>Properties of the dispatch\<close>

lemma ApplicationCommandData_command:
  "iType i = InteractionApplicationCommand \<Longrightarrow>
   Data i = ApplicationCommandInteractionData name opts \<Longrightarrow>
   ApplicationCommandData i = Inr (name, opts)"
  by (simp add: ApplicationCommandData_def)

lemma HandleInteraction_unregistered:
  "iType i = InteractionApplicationCommand \<Longrightarrow>
   Data i = ApplicationCommandInteractionData name opts \<Longrightarrow>
   Commands b (commandName_loop name opts) = None \<Longrightarrow>
   HandleInteraction sem prep fmtv b i w =
     (Inr (Some (''command '' @ quote (commandName_loop name opts) @ '' not registered'')),
      w\<lparr>logs := logs w @ [(Info, ''Handling command interaction''),
                           (Warn, ''Command not registered'')]\<rparr>)"
  by (simp add: HandleInteraction_def ApplicationCommandData_command slog_def)

lemma HandleCommand_loop_unregistered:
  "iType i = InteractionApplicationCommand \<Longrightarrow>
   Data i = ApplicationCommandInteractionData name opts \<Longrightarrow>
   \<forall>b\<in>set bs. Commands b (commandName_loop name opts) = None \<Longrightarrow>
   HandleCommand_loop sem prep fmtv bs i w =
     (None,
      w\<lparr>logs := logs w
            @ concat (replicate (length bs)
                [(Debug, ''Binding matched for interaction''),
                 (Info, ''Handling command interaction''),
                 (Warn, ''Command not registered''),
                 (Warn, ''Error handling interaction with binding'')])
            @ [(Warn, ''Command binding not found'')]\<rparr>)"
proof (induction bs arbitrary: w)
  case Nil
  then show ?case by (simp add: slog_def)
next
  case (Cons b bs)
  then show ?case
    by (simp add: HandleInteraction_unregistered CanHandleInteraction_def slog_def)
qed

lemma HandleInteraction_registered:
  "iType i = InteractionApplicationCommand \<Longrightarrow>
   Data i = ApplicationCommandInteractionData name opts \<Longrightarrow>
   Commands b (commandName_loop name opts) = Some g \<Longrightarrow>
   fst (HandleInteraction sem prep fmtv b i w) = Inr None"
  by (simp add: HandleInteraction_def ApplicationCommandData_command)

lemma HandleInteraction_missing_global:
  "iType i = InteractionApplicationCommand \<Longrightarrow>
   Data i = ApplicationCommandInteractionData name opts \<Longrightarrow>
   Commands b (commandName_loop name opts) = Some g \<Longrightarrow>
   globals w g = LNil \<Longrightarrow>
   HandleInteraction sem prep fmtv b i w =
     (Inr None,
      w\<lparr>logs := logs w @ [(Info, ''Handling command interaction''),
                           (Debug, ''Executing Lua handler''),
                           (Error, ''Lua handler not implemented'')]\<rparr>)"
  by (simp add: HandleInteraction_def ApplicationCommandData_command slog_def Do_def)

lemma HandleInteraction_handler_error:
  "iType i = InteractionApplicationCommand \<Longrightarrow>
   Data i = ApplicationCommandInteractionData name opts \<Longrightarrow>
   Commands b (commandName_loop name opts) = Some g \<Longrightarrow>
   globals w g = LFunction f \<Longrightarrow>
   prepareInteractionTable prep fmtv b i = Inr t \<Longrightarrow>
   sem f [t] (globals w) = (Some err, g') \<Longrightarrow>
   HandleInteraction sem prep fmtv b i w =
     (Inr None,
      w\<lparr>globals := g', invoked := invoked w @ [(f, [t])],
        logs := logs w @ [(Info, ''Handling command interaction''),
                           (Debug, ''Executing Lua handler''),
                           (Error, ''Error executing Lua command handler'')]\<rparr>)"
  by (simp add: HandleInteraction_def ApplicationCommandData_command slog_def Do_def
        CallByParam_def)

lemma HandleInteraction_handler_ok:
  "iType i = InteractionApplicationCommand \<Longrightarrow>
   Data i = ApplicationCommandInteractionData name opts \<Longrightarrow>
   Commands b (commandName_loop name opts) = Some g \<Longrightarrow>
   globals w g = LFunction f \<Longrightarrow>
   prepareInteractionTable prep fmtv b i = Inr t \<Longrightarrow>
   sem f [t] (globals w) = (None, g') \<Longrightarrow>
   HandleInteraction sem prep fmtv b i w =
     (Inr None,
      w\<lparr>globals := g', invoked := invoked w @ [(f, [t])],
        logs := logs w @ [(Info, ''Handling command interaction''),
                           (Debug, ''Executing Lua handler''),
                           (Info, ''Command handled successfully'')]\<rparr>)"
  by (simp add: HandleInteraction_def ApplicationCommandData_command slog_def Do_def
        CallByParam_def)

lemma HandleInteraction_invokes:
  assumes "iType i = InteractionApplicationCommand"
    and "Data i = ApplicationCommandInteractionData name opts"
    and "Commands b (commandName_loop name opts) = Some g"
    and "globals w g = LFunction f"
    and "prepareInteractionTable prep fmtv b i = Inr t"
  shows "fst (HandleInteraction sem prep fmtv b i w) = Inr None \<and>
         invoked (snd (HandleInteraction sem prep fmtv b i w)) = invoked w @ [(f, [t])]"
proof (cases "sem f [t] (globals w)")
  case (Pair err g')
  show ?thesis
  proof (cases err)
    case None
    with Pair HandleInteraction_handler_ok [OF assms, of sem g'] show ?thesis by simp
  next
    case (Some e)
    with Pair HandleInteraction_handler_error [OF assms, of sem e g'] show ?thesis by simp
  qed
qed


text \<open>
  C2, as the claim states it, fails: with a string option first and a subcommand second,
  the loop appends the name of the second option, where the claim gives the bare name.
\<close>

theorem C2_key_counterexample:
  "commandName_loop ''foo''
     [DataOption ''x'' ApplicationCommandOptionString (JString ''v'') None,
      DataOption ''bar'' ApplicationCommandOptionSubCommand JNull None] = ''foo_bar''
   \<and> spec_lookup_key ''foo''
     [DataOption ''x'' ApplicationCommandOptionString (JString ''v'') None,
      DataOption ''bar'' ApplicationCommandOptionSubCommand JNull None] = ''foo''"
  by (simp add: spec_lookup_key_def)

text \<open>
  C2, amended: the lookup key is the command name, with a separator and the name of the
  first option of subcommand type of the top-level option list appended when there is
  one, wherever in the list it stands; it is the bare command name when no top-level
  option is of subcommand type. The options after that subcommand, and the values and
  nested options of all options, are not part of the key. This key is the one under
  which \<open>HandleInteraction\<close> looks the handler up.
\<close>

theorem C2_key_first_subcommand:
  "((\<forall>opt\<in>set pre. ido_Type opt \<noteq> ApplicationCommandOptionSubCommand) \<longrightarrow>
    ido_Type s = ApplicationCommandOptionSubCommand \<longrightarrow>
    commandName_loop n (pre @ s # post) = n @ ''_'' @ ido_Name s)
   \<and> ((\<forall>opt\<in>set opts. ido_Type opt \<noteq> ApplicationCommandOptionSubCommand) \<longrightarrow>
      commandName_loop n opts = n)
   \<and> commandName_loop n
        (map (\<lambda>opt. DataOption (ido_Name opt) (ido_Type opt) (v opt) (sub opt)) opts)
      = commandName_loop n opts
   \<and> (iType i = InteractionApplicationCommand \<longrightarrow>
      Data i = ApplicationCommandInteractionData n opts \<longrightarrow>
      fst (HandleInteraction sem prep fmtv b i w) =
        (case Commands b (commandName_loop n opts) of
           None \<Rightarrow>
             Inr (Some (''command '' @ quote (commandName_loop n opts) @ '' not registered''))
         | Some g \<Rightarrow> Inr None))"
  by (simp add: commandName_loop_append commandName_loop_none commandName_loop_nested
        HandleInteraction_unregistered HandleInteraction_registered split: option.splits)

theorem C2_key_first_subcommand_witness:
  "commandName_loop ''foo''
     ([DataOption ''x'' ApplicationCommandOptionString (JString ''v'') None]
      @ DataOption ''bar'' ApplicationCommandOptionSubCommand JNull
          (Some [DataOption ''deep'' ApplicationCommandOptionSubCommand JNull None])
      # [DataOption ''baz'' ApplicationCommandOptionSubCommand JNull None]) = ''foo_bar''
   \<and> commandName_loop ''foo''
        [DataOption ''x'' ApplicationCommandOptionString (JString ''v'') None] = ''foo''
   \<and> fst (HandleInteraction (\<lambda>f args g. (None, g)) (\<lambda>s i. ([], [])) (\<lambda>v. []) freshBinding
            \<lparr>ID = ''1'', iType = InteractionApplicationCommand,
             Data = ApplicationCommandInteractionData ''foo''
                      [DataOption ''x'' ApplicationCommandOptionString (JString ''v'') None]\<rparr>
            freshWorld)
     = Inr (Some ''command 'foo' not registered'')"
  using C2_key_first_subcommand
    [where pre = "[DataOption ''x'' ApplicationCommandOptionString (JString ''v'') None]"
       and s = "DataOption ''bar'' ApplicationCommandOptionSubCommand JNull
                  (Some [DataOption ''deep'' ApplicationCommandOptionSubCommand JNull None])"
       and n = "''foo''"
       and post = "[DataOption ''baz'' ApplicationCommandOptionSubCommand JNull None]"
       and opts = "[DataOption ''x'' ApplicationCommandOptionString (JString ''v'') None]"
       and i = "\<lparr>ID = ''1'', iType = InteractionApplicationCommand,
                 Data = ApplicationCommandInteractionData ''foo''
                   [DataOption ''x'' ApplicationCommandOptionString (JString ''v'') None]\<rparr>"
       and sem = "\<lambda>f args g. (None, g)" and prep = "\<lambda>s i. ([], [])" and fmtv = "\<lambda>v. []"
       and b = freshBinding and w = freshWorld]
  by (simp add: freshBinding_def quote_def)

text \<open>
  C7: for a command event whose dispatch key has no entry in \<open>Commands\<close>,
  \<open>HandleInteraction\<close> returns the error \<open>command '...' not registered\<close>; it calls no
  script function and makes no platform call, and only adds an information and a warning
  line to the log. The dispatcher \<open>HandleCommand\<close> then returns normally: it raises
  nothing, and adds only debug, information and warning lines to the log.
\<close>

theorem C7_unregistered_key:
  "(iType i = InteractionApplicationCommand \<longrightarrow>
    Data i = ApplicationCommandInteractionData name opts \<longrightarrow>
    Commands b (commandName_loop name opts) = None \<longrightarrow>
    HandleInteraction sem prep fmtv b i w =
      (Inr (Some (''command '' @ quote (commandName_loop name opts) @ '' not registered'')),
       w\<lparr>logs := logs w @ [(Info, ''Handling command interaction''),
                            (Warn, ''Command not registered'')]\<rparr>))
   \<and> (iType i = InteractionApplicationCommand \<longrightarrow>
      Data i = ApplicationCommandInteractionData name opts \<longrightarrow>
      (\<forall>b\<in>set (Bindings m). Commands b (commandName_loop name opts) = None) \<longrightarrow>
      HandleCommand sem prep fmtv m i w =
        (None,
         w\<lparr>logs := logs w
               @ concat (replicate (length (Bindings m))
                   [(Debug, ''Binding matched for interaction''),
                    (Info, ''Handling command interaction''),
                    (Warn, ''Command not registered''),
                    (Warn, ''Error handling interaction with binding'')])
               @ [(Warn, ''Command binding not found'')]\<rparr>))"
  by (simp add: HandleInteraction_unregistered HandleCommand_loop_unregistered HandleCommand_def)

theorem C7_unregistered_key_witness:
  "HandleInteraction (\<lambda>f args g. (None, g)) (\<lambda>s i. ([], [])) (\<lambda>v. []) freshBinding
     \<lparr>ID = ''1'', iType = InteractionApplicationCommand,
      Data = ApplicationCommandInteractionData ''foo'' []\<rparr> freshWorld
   = (Inr (Some ''command 'foo' not registered''),
      freshWorld\<lparr>logs := [(Info, ''Handling command interaction''),
                            (Warn, ''Command not registered'')]\<rparr>)
   \<and> HandleCommand (\<lambda>f args g. (None, g)) (\<lambda>s i. ([], [])) (\<lambda>v. [])
       \<lparr>Bindings = [freshBinding], OnReadyCbs = []\<rparr>
       \<lparr>ID = ''1'', iType = InteractionApplicationCommand,
        Data = ApplicationCommandInteractionData ''foo'' []\<rparr> freshWorld
     = (None,
        freshWorld\<lparr>logs := [(Debug, ''Binding matched for interaction''),
                              (Info, ''Handling command interaction''),
                              (Warn, ''Command not registered''),
                              (Warn, ''Error handling interaction with binding''),
                              (Warn, ''Command binding not found'')]\<rparr>)"
  using C7_unregistered_key
    [of "\<lparr>ID = ''1'', iType = InteractionApplicationCommand,
          Data = ApplicationCommandInteractionData ''foo'' []\<rparr>"
        "''foo''" "[]" freshBinding "\<lambda>f args g. (None, g)" "\<lambda>s i. ([], [])" "\<lambda>v. []"
        freshWorld "\<lparr>Bindings = [freshBinding], OnReadyCbs = []\<rparr>"]
  by (simp add: freshBinding_def freshWorld_def quote_def)

text \<open>
  C10: for a command event whose dispatch key has an entry in \<open>Commands\<close>,
  \<open>HandleInteraction\<close> returns a nil error whatever the handler does. When the global the
  entry names is nil, the only effect is an error line in the log; when the handler
  raises an error, the error is logged and not returned.
\<close>

theorem C10_registered_key_returns_nil:
  "(iType i = InteractionApplicationCommand \<longrightarrow>
    Data i = ApplicationCommandInteractionData name opts \<longrightarrow>
    Commands b (commandName_loop name opts) = Some g \<longrightarrow>
    fst (HandleInteraction sem prep fmtv b i w) = Inr None)
   \<and> (iType i = InteractionApplicationCommand \<longrightarrow>
      Data i = ApplicationCommandInteractionData name opts \<longrightarrow>
      Commands b (commandName_loop name opts) = Some g \<longrightarrow>
      globals w g = LNil \<longrightarrow>
      HandleInteraction sem prep fmtv b i w =
        (Inr None,
         w\<lparr>logs := logs w @ [(Info, ''Handling command interaction''),
                              (Debug, ''Executing Lua handler''),
                              (Error, ''Lua handler not implemented'')]\<rparr>))
   \<and> (iType i = InteractionApplicationCommand \<longrightarrow>
      Data i = ApplicationCommandInteractionData name opts \<longrightarrow>
      Commands b (commandName_loop name opts) = Some g \<longrightarrow>
      globals w g = LFunction f \<longrightarrow>
      prepareInteractionTable prep fmtv b i = Inr t \<longrightarrow>
      sem f [t] (globals w) = (Some err, g') \<longrightarrow>
      HandleInteraction sem prep fmtv b i w =
        (Inr None,
         w\<lparr>globals := g', invoked := invoked w @ [(f, [t])],
           logs := logs w @ [(Info, ''Handling command interaction''),
                              (Debug, ''Executing Lua handler''),
                              (Error, ''Error executing Lua command handler'')]\<rparr>))"
  by (simp add: HandleInteraction_registered HandleInteraction_missing_global
        HandleInteraction_handler_error)

theorem C10_registered_key_returns_nil_witness:
  "HandleInteraction (\<lambda>f args g. (Some ''boom'', g)) (\<lambda>s i. ([], [])) (\<lambda>v. [])
     (freshBinding\<lparr>Commands := [''foo'' \<mapsto> ''handler_foo'']\<rparr>)
     \<lparr>ID = ''1'', iType = InteractionApplicationCommand,
      Data = ApplicationCommandInteractionData ''foo'' []\<rparr> freshWorld
   = (Inr None,
      freshWorld\<lparr>logs := [(Info, ''Handling command interaction''),
                            (Debug, ''Executing Lua handler''),
                            (Error, ''Lua handler not implemented'')]\<rparr>)
   \<and> HandleInteraction (\<lambda>f args g. (Some ''boom'', g)) (\<lambda>s i. ([], [])) (\<lambda>v. [])
     (freshBinding\<lparr>Commands := [''foo'' \<mapsto> ''handler_foo'']\<rparr>)
     \<lparr>ID = ''1'', iType = InteractionApplicationCommand,
      Data = ApplicationCommandInteractionData ''foo'' []\<rparr>
     (freshWorld\<lparr>globals := (\<lambda>name. LNil)(''handler_foo'' := LFunction 7)\<rparr>)
   = (Inr None,
      freshWorld\<lparr>globals := (\<lambda>name. LNil)(''handler_foo'' := LFunction 7),
                  invoked := [(7, [LTable [] [(''options'', LTable [] [])]])],
                  logs := [(Info, ''Handling command interaction''),
                            (Debug, ''Executing Lua handler''),
                            (Error, ''Error executing Lua command handler'')]\<rparr>)"
proof -
  have 1: "HandleInteraction (\<lambda>f args g. (Some ''boom'', g)) (\<lambda>s i. ([], [])) (\<lambda>v. [])
     (freshBinding\<lparr>Commands := [''foo'' \<mapsto> ''handler_foo'']\<rparr>)
     \<lparr>ID = ''1'', iType = InteractionApplicationCommand,
      Data = ApplicationCommandInteractionData ''foo'' []\<rparr> freshWorld
   = (Inr None,
      freshWorld\<lparr>logs := [(Info, ''Handling command interaction''),
                            (Debug, ''Executing Lua handler''),
                            (Error, ''Lua handler not implemented'')]\<rparr>)"
    using C10_registered_key_returns_nil
      [of "\<lparr>ID = ''1'', iType = InteractionApplicationCommand,
            Data = ApplicationCommandInteractionData ''foo'' []\<rparr>"
          "''foo''" "[]" "freshBinding\<lparr>Commands := [''foo'' \<mapsto> ''handler_foo'']\<rparr>"
          "''handler_foo''" "\<lambda>f args g. (Some ''boom'', g)" "\<lambda>s i. ([], [])" "\<lambda>v. []"
          freshWorld]
    by (simp add: freshBinding_def freshWorld_def)
  have 2: "HandleInteraction (\<lambda>f args g. (Some ''boom'', g)) (\<lambda>s i. ([], [])) (\<lambda>v. [])
     (freshBinding\<lparr>Commands := [''foo'' \<mapsto> ''handler_foo'']\<rparr>)
     \<lparr>ID = ''1'', iType = InteractionApplicationCommand,
      Data = ApplicationCommandInteractionData ''foo'' []\<rparr>
     (freshWorld\<lparr>globals := (\<lambda>name. LNil)(''handler_foo'' := LFunction 7)\<rparr>)
   = (Inr None,
      freshWorld\<lparr>globals := (\<lambda>name. LNil)(''handler_foo'' := LFunction 7),
                  invoked := [(7, [LTable [] [(''options'', LTable [] [])]])],
                  logs := [(Info, ''Handling command interaction''),
                            (Debug, ''Executing Lua handler''),
                            (Error, ''Error executing Lua command handler'')]\<rparr>)"
    using C10_registered_key_returns_nil
      [of "\<lparr>ID = ''1'', iType = InteractionApplicationCommand,
            Data = ApplicationCommandInteractionData ''foo'' []\<rparr>"
          "''foo''" "[]" "freshBinding\<lparr>Commands := [''foo'' \<mapsto> ''handler_foo'']\<rparr>"
          "''handler_foo''" "\<lambda>f args g. (Some ''boom'', g)" "\<lambda>s i. ([], [])" "\<lambda>v. []"
          "freshWorld\<lparr>globals := (\<lambda>name. LNil)(''handler_foo'' := LFunction 7)\<rparr>"
          7 "LTable [] [(''options'', LTable [] [])]" "''boom''"
          "(\<lambda>name. LNil)(''handler_foo'' := LFunction 7)"]
    by (simp add: freshBinding_def freshWorld_def prepareInteractionTable_def
          ApplicationCommandData_def RawSetString_def)
  from 1 2 show ?thesis by simp
qed

section \<open>The flattened options as the handler receives them\<close>

text \<open>
  The table given to the handler holds the flattening of the options of the event under
  the key \<open>options\<close>.
\<close>

lemma HandleInteraction_argument:
  assumes "iType i = InteractionApplicationCommand"
    and "Data i = ApplicationCommandInteractionData name opts"
    and "Commands b (commandName_loop name opts) = Some g"
    and "globals w g = LFunction f"
    and "buildOptionsTable fmtv None opts = Inr t"
  shows "invoked (snd (HandleInteraction sem prep fmtv b i w))
           = invoked w @ [(f, [LTable (fst (prep (Session b) i))
                                 (RawSetString (snd (prep (Session b) i)) ''options''
                                    (LTable [] t))])]"
proof -
  from assms(1,2,5)
  have "prepareInteractionTable prep fmtv b i
          = Inr (LTable (fst (prep (Session b) i))
                   (RawSetString (snd (prep (Session b) i)) ''options'' (LTable [] t)))"
    by (simp add: prepareInteractionTable_def ApplicationCommandData_command
          split: prod.splits)
  from HandleInteraction_invokes [OF assms(1-4) this] show ?thesis by simp
qed

text \<open>
  C3, as the claim states it, fails: a string option that stands before a subcommand at
  the shallower level stays in the mapping, beside the option of the deeper level, where
  the claim keeps the deeper option only.
\<close>

theorem C3_flatten_counterexample:
  "buildOptionsTable (\<lambda>v. []) None
     [DataOption ''a'' ApplicationCommandOptionString (JString ''1'') None,
      DataOption ''bar'' ApplicationCommandOptionSubCommand JNull
        (Some [DataOption ''b'' ApplicationCommandOptionString (JString ''2'') None])]
   = Inr [(''a'', LString ''1''), (''b'', LString ''2'')]
   \<and> spec_flatten (\<lambda>v. [])
     [DataOption ''a'' ApplicationCommandOptionString (JString ''1'') None,
      DataOption ''bar'' ApplicationCommandOptionSubCommand JNull
        (Some [DataOption ''b'' ApplicationCommandOptionString (JString ''2'') None])]
   = [(''b'', LString ''2'')]"
  by (simp add: spec_flatten_def optionValue_def RawSetString_def)

text \<open>
  C3, amended: the key to value mapping passed to the script handler, under the key
  \<open>options\<close> of the handler's one argument, is the flattening of the options of the
  event into one table. At the first subcommand option whose option list is not nil, the
  rest of the current level is dropped and the flattening goes on with that
  subcommand's options in the same table: the options after that subcommand at the
  shallower level are discarded, and the options before it stay in the mapping unless
  an option of the deeper level has the same name (no key is ever removed). At a level
  without such a subcommand the keys written are the names of all options that are not
  of subcommand type, and the value under a name is that of the last option of that
  name. The value of an integer option is the number truncated towards zero, that of a
  boolean, string or number option is the value itself, and that of an option of any
  other kind is its text.
\<close>

theorem C3_flatten_same_table:
  "((\<forall>opt\<in>set pre. \<not> (ido_Type opt = ApplicationCommandOptionSubCommand \<and> ido_Options opt \<noteq> None)) \<longrightarrow>
    buildOptionsTable fmtv T pre = Inr t1 \<longrightarrow>
    buildOptionsTable fmtv T
      (pre @ DataOption name ApplicationCommandOptionSubCommand val (Some subOptions) # post)
    = buildOptionsTable fmtv (Some t1) subOptions)
   \<and> (buildOptionsTable fmtv T opts = Inr t2 \<longrightarrow> fst ` set (tableOf T) \<subseteq> fst ` set t2)
   \<and> ((\<forall>opt\<in>set opts. \<not> (ido_Type opt = ApplicationCommandOptionSubCommand \<and> ido_Options opt \<noteq> None)) \<longrightarrow>
      buildOptionsTable fmtv T opts = Inr t2 \<longrightarrow>
      fst ` set t2 = fst ` set (tableOf T) \<union>
        set (map ido_Name (filter (\<lambda>opt. ido_Type opt \<noteq> ApplicationCommandOptionSubCommand) opts)))
   \<and> ((\<forall>opt\<in>set opts. \<not> (ido_Type opt = ApplicationCommandOptionSubCommand \<and> ido_Options opt \<noteq> None)) \<longrightarrow>
      buildOptionsTable fmtv T opts = Inr t2 \<longrightarrow>
      map_option Inr (map_of t2 k) =
        (case lastNamed k opts of
           None \<Rightarrow> map_option Inr (map_of (tableOf T) k)
         | Some opt \<Rightarrow> Some (optionValue fmtv opt)))
   \<and> ((\<forall>opt\<in>set pre. \<not> (ido_Type opt = ApplicationCommandOptionSubCommand \<and> ido_Options opt \<noteq> None)) \<longrightarrow>
      (\<forall>opt\<in>set subOptions. \<not> (ido_Type opt = ApplicationCommandOptionSubCommand \<and> ido_Options opt \<noteq> None)) \<longrightarrow>
      buildOptionsTable fmtv None
        (pre @ DataOption name ApplicationCommandOptionSubCommand val (Some subOptions) # post)
      = Inr t3 \<longrightarrow>
      map_option Inr (map_of t3 k) =
        (case lastNamed k subOptions of
           Some opt \<Rightarrow> Some (optionValue fmtv opt)
         | None \<Rightarrow>
             (case lastNamed k pre of
                Some opt \<Rightarrow> Some (optionValue fmtv opt)
              | None \<Rightarrow> None)))
   \<and> (- (2 ^ 63) \<le> truncateToZero x \<longrightarrow> truncateToZero x < 2 ^ 63 \<longrightarrow>
      optionValue fmtv (DataOption oname ApplicationCommandOptionInteger (JNumber x) osub)
        = Inr (LNumber (of_int (truncateToZero x))))
   \<and> optionValue fmtv (DataOption oname ApplicationCommandOptionBoolean (JBool bv) osub)
        = Inr (LBool bv)
   \<and> optionValue fmtv (DataOption oname ApplicationCommandOptionString (JString sv) osub)
        = Inr (LString sv)
   \<and> optionValue fmtv (DataOption oname ApplicationCommandOptionNumber (JNumber y) osub)
        = Inr (LNumber y)
   \<and> (oty \<noteq> ApplicationCommandOptionInteger \<longrightarrow>
      oty \<noteq> ApplicationCommandOptionBoolean \<longrightarrow>
      oty \<noteq> ApplicationCommandOptionString \<longrightarrow>
      oty \<noteq> ApplicationCommandOptionNumber \<longrightarrow>
      optionValue fmtv (DataOption oname oty oval osub) = Inr (LString (fmtv oval)))
   \<and> (iType i = InteractionApplicationCommand \<longrightarrow>
      Data i = ApplicationCommandInteractionData cname copts \<longrightarrow>
      Commands b (commandName_loop cname copts) = Some g \<longrightarrow>
      globals w g = LFunction f \<longrightarrow>
      buildOptionsTable fmtv None copts = Inr t4 \<longrightarrow>
      invoked (snd (HandleInteraction sem prep fmtv b i w))
        = invoked w @ [(f, [LTable (fst (prep (Session b) i))
                              (RawSetString (snd (prep (Session b) i)) ''options''
                                 (LTable [] t4))])]
      \<and> RawGetString (RawSetString (snd (prep (Session b) i)) ''options'' (LTable [] t4))
          ''options'' = LTable [] t4)"
proof -
  have 1: "(\<forall>opt\<in>set pre. \<not> (ido_Type opt = ApplicationCommandOptionSubCommand \<and> ido_Options opt \<noteq> None)) \<longrightarrow>
    buildOptionsTable fmtv T pre = Inr t1 \<longrightarrow>
    buildOptionsTable fmtv T
      (pre @ DataOption name ApplicationCommandOptionSubCommand val (Some subOptions) # post)
    = buildOptionsTable fmtv (Some t1) subOptions"
    by (simp add: buildOptionsTable_append)
  have 2: "buildOptionsTable fmtv T opts = Inr t2 \<longrightarrow> fst ` set (tableOf T) \<subseteq> fst ` set t2"
    using buildOptionsTable_keys_mono [of fmtv T opts t2] by blast
  have 3: "(\<forall>opt\<in>set opts. \<not> (ido_Type opt = ApplicationCommandOptionSubCommand \<and> ido_Options opt \<noteq> None)) \<longrightarrow>
      buildOptionsTable fmtv T opts = Inr t2 \<longrightarrow>
      fst ` set t2 = fst ` set (tableOf T) \<union>
        set (map ido_Name (filter (\<lambda>opt. ido_Type opt \<noteq> ApplicationCommandOptionSubCommand) opts))"
    using buildOptionsTable_flat_keys [of opts fmtv T t2] by blast
  have 4: "(\<forall>opt\<in>set opts. \<not> (ido_Type opt = ApplicationCommandOptionSubCommand \<and> ido_Options opt \<noteq> None)) \<longrightarrow>
      buildOptionsTable fmtv T opts = Inr t2 \<longrightarrow>
      map_option Inr (map_of t2 k) =
        (case lastNamed k opts of
           None \<Rightarrow> map_option Inr (map_of (tableOf T) k)
         | Some opt \<Rightarrow> Some (optionValue fmtv opt))"
    using buildOptionsTable_flat_values [of opts fmtv T t2 k] by blast
  have 5: "(\<forall>opt\<in>set pre. \<not> (ido_Type opt = ApplicationCommandOptionSubCommand \<and> ido_Options opt \<noteq> None)) \<longrightarrow>
      (\<forall>opt\<in>set subOptions. \<not> (ido_Type opt = ApplicationCommandOptionSubCommand \<and> ido_Options opt \<noteq> None)) \<longrightarrow>
      buildOptionsTable fmtv None
        (pre @ DataOption name ApplicationCommandOptionSubCommand val (Some subOptions) # post)
      = Inr t3 \<longrightarrow>
      map_option Inr (map_of t3 k) =
        (case lastNamed k subOptions of
           Some opt \<Rightarrow> Some (optionValue fmtv opt)
         | None \<Rightarrow>
             (case lastNamed k pre of
                Some opt \<Rightarrow> Some (optionValue fmtv opt)
              | None \<Rightarrow> None))"
    using buildOptionsTable_two_levels [of pre subOptions fmtv name val post t3 k] by blast
  have 7: "iType i = InteractionApplicationCommand \<longrightarrow>
      Data i = ApplicationCommandInteractionData cname copts \<longrightarrow>
      Commands b (commandName_loop cname copts) = Some g \<longrightarrow>
      globals w g = LFunction f \<longrightarrow>
      buildOptionsTable fmtv None copts = Inr t4 \<longrightarrow>
      invoked (snd (HandleInteraction sem prep fmtv b i w))
        = invoked w @ [(f, [LTable (fst (prep (Session b) i))
                              (RawSetString (snd (prep (Session b) i)) ''options''
                                 (LTable [] t4))])]
      \<and> RawGetString (RawSetString (snd (prep (Session b) i)) ''options'' (LTable [] t4))
          ''options'' = LTable [] t4"
    using HandleInteraction_argument [of i cname copts b g w f fmtv t4 sem prep]
    by (simp add: RawGetString_RawSetString)
  from 1 2 3 4 5 optionValue_typed [of x fmtv oname osub bv sv y oty oval] 7 show ?thesis
    by (intro conjI) simp_all
qed

theorem C3_flatten_same_table_witness:
  "buildOptionsTable (\<lambda>v. ''?'') None
     ([DataOption ''a'' ApplicationCommandOptionString (JString ''1'') None,
       DataOption ''n'' ApplicationCommandOptionInteger (JNumber 7) None]
      @ DataOption ''bar'' ApplicationCommandOptionSubCommand JNull
          (Some [DataOption ''b'' ApplicationCommandOptionString (JString ''2'') None,
                 DataOption ''a'' ApplicationCommandOptionBoolean (JBool True) None])
      # [DataOption ''c'' ApplicationCommandOptionString (JString ''3'') None])
   = Inr [(''a'', LBool True), (''n'', LNumber 7), (''b'', LString ''2'')]
   \<and> buildOptionsTable (\<lambda>v. ''?'') None
       [DataOption ''a'' ApplicationCommandOptionString (JString ''1'') None,
        DataOption ''g'' ApplicationCommandOptionSubCommandGroup JNull None,
        DataOption ''a'' ApplicationCommandOptionNumber (JNumber 2) None]
     = Inr [(''a'', LNumber 2), (''g'', LString ''?'')]
   \<and> invoked (snd (HandleInteraction (\<lambda>f args g. (None, g)) (\<lambda>s i. ([], [])) (\<lambda>v. ''?'')
        (freshBinding\<lparr>Commands := [''foo_bar'' \<mapsto> ''handler_foo_bar'']\<rparr>)
        \<lparr>ID = ''1'', iType = InteractionApplicationCommand,
         Data = ApplicationCommandInteractionData ''foo''
           ([DataOption ''a'' ApplicationCommandOptionString (JString ''1'') None,
             DataOption ''n'' ApplicationCommandOptionInteger (JNumber 7) None]
            @ DataOption ''bar'' ApplicationCommandOptionSubCommand JNull
                (Some [DataOption ''b'' ApplicationCommandOptionString (JString ''2'') None,
                       DataOption ''a'' ApplicationCommandOptionBoolean (JBool True) None])
            # [DataOption ''c'' ApplicationCommandOptionString (JString ''3'') None])\<rparr>
        (freshWorld\<lparr>globals := (\<lambda>name. LNil)(''handler_foo_bar'' := LFunction 7)\<rparr>)))
     = [(7, [LTable [] [(''options'',
               LTable [] [(''a'', LBool True), (''n'', LNumber 7), (''b'', LString ''2'')])]])]"
proof -
  let ?pre = "[DataOption ''a'' ApplicationCommandOptionString (JString ''1'') None,
       DataOption ''n'' ApplicationCommandOptionInteger (JNumber 7) None]"
  let ?sub = "[DataOption ''b'' ApplicationCommandOptionString (JString ''2'') None,
                 DataOption ''a'' ApplicationCommandOptionBoolean (JBool True) None]"
  let ?post = "[DataOption ''c'' ApplicationCommandOptionString (JString ''3'') None]"
  let ?flat = "[DataOption ''a'' ApplicationCommandOptionString (JString ''1'') None,
        DataOption ''g'' ApplicationCommandOptionSubCommandGroup JNull None,
        DataOption ''a'' ApplicationCommandOptionNumber (JNumber 2) None]"
  let ?t3 = "[(''a'', LBool True), (''n'', LNumber 7), (''b'', LString ''2'')]"
  have tr: "truncateToZero 7 = 7"
    by (simp add: truncateToZero_def)
  have v: "optionValue (\<lambda>v. ''?'') (DataOption ''n'' ApplicationCommandOptionInteger (JNumber 7) None)
             = Inr (LNumber 7)"
          "optionValue (\<lambda>v. ''?'') (DataOption ''a'' ApplicationCommandOptionBoolean (JBool True) None)
             = Inr (LBool True)"
          "optionValue (\<lambda>v. ''?'') (DataOption ''a'' ApplicationCommandOptionString (JString ''1'') None)
             = Inr (LString ''1'')"
          "optionValue (\<lambda>v. ''?'') (DataOption ''b'' ApplicationCommandOptionString (JString ''2'') None)
             = Inr (LString ''2'')"
          "optionValue (\<lambda>v. ''?'') (DataOption ''a'' ApplicationCommandOptionNumber (JNumber 2) None)
             = Inr (LNumber 2)"
          "optionValue (\<lambda>v. ''?'') (DataOption ''g'' ApplicationCommandOptionSubCommandGroup JNull None)
             = Inr (LString ''?'')"
    by (simp_all add: optionValue_def int64_of_def tr)
  have p: "buildOptionsTable (\<lambda>v. ''?'') None ?pre = Inr [(''a'', LString ''1''), (''n'', LNumber 7)]"
    by (simp add: v RawSetString_def)
  have f: "buildOptionsTable (\<lambda>v. ''?'') None ?flat = Inr [(''a'', LNumber 2), (''g'', LString ''?'')]"
    by (simp add: v RawSetString_def)
  have s: "buildOptionsTable (\<lambda>v. ''?'') None
             (?pre @ DataOption ''bar'' ApplicationCommandOptionSubCommand JNull (Some ?sub) # ?post)
           = Inr ?t3"
    by (simp add: v RawSetString_def)
  show ?thesis
    using p f s tr C3_flatten_same_table
      [where pre = ?pre and fmtv = "\<lambda>v. ''?''" and T = None
         and ?t1.0 = "[(''a'', LString ''1''), (''n'', LNumber 7)]"
         and name = "''bar''" and val = JNull and subOptions = ?sub and post = ?post
         and opts = ?flat and ?t2.0 = "[(''a'', LNumber 2), (''g'', LString ''?'')]"
         and k = "''a''" and ?t3.0 = ?t3
         and x = 7 and oname = "''n''" and osub = None and bv = True and sv = "''1''" and y = 2
         and oty = ApplicationCommandOptionSubCommandGroup and oval = JNull
         and i = "\<lparr>ID = ''1'', iType = InteractionApplicationCommand,
                   Data = ApplicationCommandInteractionData ''foo''
                     (?pre @ DataOption ''bar'' ApplicationCommandOptionSubCommand JNull (Some ?sub) # ?post)\<rparr>"
         and cname = "''foo''"
         and copts = "?pre @ DataOption ''bar'' ApplicationCommandOptionSubCommand JNull (Some ?sub) # ?post"
         and b = "freshBinding\<lparr>Commands := [''foo_bar'' \<mapsto> ''handler_foo_bar'']\<rparr>"
         and g = "''handler_foo_bar''"
         and w = "freshWorld\<lparr>globals := (\<lambda>name. LNil)(''handler_foo_bar'' := LFunction 7)\<rparr>"
         and f = 7 and ?t4.0 = ?t3
         and sem = "\<lambda>f args g. (None, g)" and prep = "\<lambda>s i. ([], [])"]
    by (simp add: RawSetString_def freshBinding_def freshWorld_def)
qed

section \<open>Properties of the registration\<close>

lemma parseOptions_induct2 [case_names Nil Cons]:
  assumes nil: "\<And>p bw. P p [] bw"
    and cons: "\<And>p v vs bw.
      (\<And>p' bw'. P p' vs bw') \<Longrightarrow>
      (\<And>a d a' d' p' bw'. v = LTable a d \<Longrightarrow> RawGetString d ''options'' = LTable a' d' \<Longrightarrow>
         P p' (ForEach a' d') bw') \<Longrightarrow>
      P p (v # vs) bw"
  shows "P p vs bw"
proof (induction "size_list size vs" arbitrary: p vs bw rule: less_induct)
  case (less vs p bw)
  show ?case
  proof (cases vs)
    case Nil
    then show ?thesis by (simp add: nil)
  next
    case (Cons v vs')
    have 1: "P p' vs' bw'" for p' bw'
      by (rule less) (simp add: Cons)
    have 2: "P p' (ForEach a' d') bw'"
      if "v = LTable a d" "RawGetString d ''options'' = LTable a' d'" for a d a' d' p' bw'
      by (rule less) (use that size_sub_options [of d a' d' a "size_list size vs'"] in \<open>simp add: Cons\<close>)
    have "P p (v # vs') bw"
      by (rule cons) (fact 1, erule (1) 2)
    with Cons show ?thesis by simp
  qed
qed

lemma Type_String: "(Type v = LTString) = (\<exists>s. v = LString s)"
  by (cases v) simp_all

lemma Type_Number: "(Type v = LTNumber) = (\<exists>x. v = LNumber x)"
  by (cases v) simp_all

lemma Type_Function: "(Type v = LTFunction) = (\<exists>f. v = LFunction f)"
  by (cases v) simp_all

lemma Type_Table: "(Type v = LTTable) = (\<exists>a d. v = LTable a d)"
  by (cases v) simp_all

lemma parseOptions_skip:
  "Type v \<noteq> LTTable \<Longrightarrow> parseOptions p (v # vs) bw = parseOptions p vs bw"
  by (cases v) simp_all

lemma parseOptions_bad_name:
  "Type (RawGetString d ''name'') \<noteq> LTString \<Longrightarrow>
   parseOptions p (LTable a d # vs) bw =
     (Inl (ArgError 1 '''name' in options must be a string''), bw)"
  by (cases "RawGetString d ''name''") simp_all

lemma parseOptions_bad_description:
  "RawGetString d ''name'' = LString n \<Longrightarrow>
   Type (RawGetString d ''description'') \<noteq> LTString \<Longrightarrow>
   parseOptions p (LTable a d # vs) bw =
     (Inl (ArgError 1 '''description' in options must be a string''), bw)"
  by (cases "RawGetString d ''description''") simp_all

lemma parseOptions_bad_type:
  "RawGetString d ''name'' = LString n \<Longrightarrow>
   RawGetString d ''description'' = LString ds \<Longrightarrow>
   Type (RawGetString d ''type'') \<noteq> LTNumber \<Longrightarrow>
   parseOptions p (LTable a d # vs) bw =
     (Inl (ArgError 1 '''type' in options must be a number''), bw)"
  by (cases "RawGetString d ''type''") simp_all

lemma parseOptions_plain:
  "RawGetString d ''name'' = LString n \<Longrightarrow>
   RawGetString d ''description'' = LString ds \<Longrightarrow>
   RawGetString d ''type'' = LNumber t \<Longrightarrow>
   uint8_of t \<noteq> ApplicationCommandOptionSubCommand \<Longrightarrow>
   parseOptions p (LTable a d # vs) bw =
     finishOption p vs
       (ApplicationCommandOption n ds (uint8_of t) (LVAsBool (RawGetString d ''required'')) []) bw"
  by (simp add: finishOption_def Let_def)

lemma parseOptions_no_handler:
  "RawGetString d ''name'' = LString n \<Longrightarrow>
   RawGetString d ''description'' = LString ds \<Longrightarrow>
   RawGetString d ''type'' = LNumber t \<Longrightarrow>
   uint8_of t = ApplicationCommandOptionSubCommand \<Longrightarrow>
   Type (RawGetString d ''handler'') \<noteq> LTFunction \<Longrightarrow>
   parseOptions p (LTable a d # vs) bw =
     (Inl (ArgError 1 ''Subcommand '%s' must have a 'handler' function''), bw)"
  by (cases "RawGetString d ''handler''") (simp_all add: Let_def)

lemma parseOptions_subcommand_leaf:
  "RawGetString d ''name'' = LString n \<Longrightarrow>
   RawGetString d ''description'' = LString ds \<Longrightarrow>
   RawGetString d ''type'' = LNumber t \<Longrightarrow>
   uint8_of t = ApplicationCommandOptionSubCommand \<Longrightarrow>
   RawGetString d ''handler'' = LFunction h \<Longrightarrow>
   Type (RawGetString d ''options'') \<noteq> LTTable \<Longrightarrow>
   parseOptions p (LTable a d # vs) bw =
     finishOption p vs
       (ApplicationCommandOption n ds ApplicationCommandOptionSubCommand
          (LVAsBool (RawGetString d ''required'')) [])
       (storeHandler p n h bw)"
  by (cases "RawGetString d ''options''") (simp_all add: finishOption_def storeHandler_def Let_def)

lemma parseOptions_subcommand_nested:
  "RawGetString d ''name'' = LString n \<Longrightarrow>
   RawGetString d ''description'' = LString ds \<Longrightarrow>
   RawGetString d ''type'' = LNumber t \<Longrightarrow>
   uint8_of t = ApplicationCommandOptionSubCommand \<Longrightarrow>
   RawGetString d ''handler'' = LFunction h \<Longrightarrow>
   RawGetString d ''options'' = LTable a' d' \<Longrightarrow>
   parseOptions p (LTable a d # vs) bw =
     (case fst (parseOptions (p @ ''_'' @ n) (ForEach a' d') (storeHandler p n h bw)) of
        Inl e \<Rightarrow>
          (Inl e, snd (parseOptions (p @ ''_'' @ n) (ForEach a' d') (storeHandler p n h bw)))
      | Inr subs \<Rightarrow>
          finishOption p vs
            (ApplicationCommandOption n ds ApplicationCommandOptionSubCommand
               (LVAsBool (RawGetString d ''required'')) subs)
            (snd (parseOptions (p @ ''_'' @ n) (ForEach a' d') (storeHandler p n h bw))))"
  by (simp add: finishOption_def storeHandler_def Let_def split: prod.splits sum.splits)

declare parseOptions.simps(2) [simp del]

lemma snd_finishOption:
  "snd (finishOption p vs opt bw) =
   snd (parseOptions p vs (fst bw, slog Debug ''Parsed command option'' (snd bw)))"
  by (simp add: finishOption_def split: prod.splits sum.splits)

lemma fst_finishOption:
  "fst (finishOption p vs opt bw) =
   (case fst (parseOptions p vs (fst bw, slog Debug ''Parsed command option'' (snd bw))) of
      Inl e \<Rightarrow> Inl e
    | Inr opts \<Rightarrow> Inr (opt # opts))"
  by (simp add: finishOption_def split: prod.splits sum.splits)

lemma option_entry_cases [case_names skip bad_name bad_description bad_type plain no_handler leaf nested]:
  obtains
    (skip) "Type v \<noteq> LTTable"
  | (bad_name) a d where "v = LTable a d" "Type (RawGetString d ''name'') \<noteq> LTString"
  | (bad_description) a d n where "v = LTable a d" "RawGetString d ''name'' = LString n"
      "Type (RawGetString d ''description'') \<noteq> LTString"
  | (bad_type) a d n ds where "v = LTable a d" "RawGetString d ''name'' = LString n"
      "RawGetString d ''description'' = LString ds" "Type (RawGetString d ''type'') \<noteq> LTNumber"
  | (plain) a d n ds t where "v = LTable a d" "RawGetString d ''name'' = LString n"
      "RawGetString d ''description'' = LString ds" "RawGetString d ''type'' = LNumber t"
      "uint8_of t \<noteq> ApplicationCommandOptionSubCommand"
  | (no_handler) a d n ds t where "v = LTable a d" "RawGetString d ''name'' = LString n"
      "RawGetString d ''description'' = LString ds" "RawGetString d ''type'' = LNumber t"
      "uint8_of t = ApplicationCommandOptionSubCommand"
      "Type (RawGetString d ''handler'') \<noteq> LTFunction"
  | (leaf) a d n ds t h where "v = LTable a d" "RawGetString d ''name'' = LString n"
      "RawGetString d ''description'' = LString ds" "RawGetString d ''type'' = LNumber t"
      "uint8_of t = ApplicationCommandOptionSubCommand"
      "RawGetString d ''handler'' = LFunction h" "Type (RawGetString d ''options'') \<noteq> LTTable"
  | (nested) a d n ds t h a' d' where "v = LTable a d" "RawGetString d ''name'' = LString n"
      "RawGetString d ''description'' = LString ds" "RawGetString d ''type'' = LNumber t"
      "uint8_of t = ApplicationCommandOptionSubCommand"
      "RawGetString d ''handler'' = LFunction h" "RawGetString d ''options'' = LTable a' d'"
proof (cases "Type v = LTTable")
  case False
  then show ?thesis by (rule skip)
next
  case True
  then obtain a d where v: "v = LTable a d" by (auto simp: Type_Table)
  show ?thesis
  proof (cases "Type (RawGetString d ''name'') = LTString")
    case False
    with v show ?thesis by (rule bad_name)
  next
    case True
    then obtain n where n: "RawGetString d ''name'' = LString n" by (auto simp: Type_String)
    show ?thesis
    proof (cases "Type (RawGetString d ''description'') = LTString")
      case False
      with v n show ?thesis by (rule bad_description)
    next
      case True
      then obtain ds where ds: "RawGetString d ''description'' = LString ds"
        by (auto simp: Type_String)
      show ?thesis
      proof (cases "Type (RawGetString d ''type'') = LTNumber")
        case False
        with v n ds show ?thesis by (rule bad_type)
      next
        case True
        then obtain t where t: "RawGetString d ''type'' = LNumber t" by (auto simp: Type_Number)
        show ?thesis
        proof (cases "uint8_of t = ApplicationCommandOptionSubCommand")
          case False
          with v n ds t show ?thesis by (rule plain)
        next
          case sub: True
          show ?thesis
          proof (cases "Type (RawGetString d ''handler'') = LTFunction")
            case False
            with v n ds t sub show ?thesis by (rule no_handler)
          next
            case True
            then obtain h where h: "RawGetString d ''handler'' = LFunction h"
              by (auto simp: Type_Function)
            show ?thesis
            proof (cases "Type (RawGetString d ''options'') = LTTable")
              case False
              with v n ds t sub h show ?thesis by (rule leaf)
            next
              case True
              then obtain a' d' where "RawGetString d ''options'' = LTable a' d'"
                by (auto simp: Type_Table)
              with v n ds t sub h show ?thesis by (rule nested)
            qed
          qed
        qed
      qed
    qed
  qed
qed

text \<open>
  A relation between the state before and after that holds across the two kinds of store
  \<open>parseOptions\<close> makes holds across \<open>parseOptions\<close>.
\<close>

lemma parseOptions_steps:
  assumes rfl: "\<And>x. R x x"
    and trans: "\<And>x y z. R x y \<Longrightarrow> R y z \<Longrightarrow> R x z"
    and log: "\<And>x. R x (fst x, slog Debug ''Parsed command option'' (snd x))"
    and store: "\<And>x p n h. R x (storeHandler p n h x)"
  shows "R bw (snd (parseOptions p vs bw))"
proof (induction p vs bw rule: parseOptions_induct2)
  case (Nil p bw)
  then show ?case by (simp add: rfl)
next
  case (Cons p v vs bw)
  have fin: "R x (snd (finishOption p vs opt x))" for x opt
  proof -
    have "R x (fst x, slog Debug ''Parsed command option'' (snd x))" by (rule log)
    also have "R \<dots> (snd (parseOptions p vs (fst x, slog Debug ''Parsed command option'' (snd x))))"
      by (rule Cons.IH(1))
    finally (trans) show ?thesis
      by (simp add: snd_finishOption)
  qed
  show ?case
  proof (cases v rule: option_entry_cases)
    case skip
    then show ?thesis by (simp add: parseOptions_skip Cons.IH(1))
  next
    case (bad_name a d)
    then show ?thesis by (simp add: parseOptions_bad_name rfl)
  next
    case (bad_description a d n)
    then show ?thesis by (simp add: parseOptions_bad_description rfl)
  next
    case (bad_type a d n ds)
    then show ?thesis by (simp add: parseOptions_bad_type rfl)
  next
    case (plain a d n ds t)
    then show ?thesis by (simp add: parseOptions_plain fin)
  next
    case (no_handler a d n ds t)
    then show ?thesis by (simp add: parseOptions_no_handler rfl)
  next
    case (leaf a d n ds t h)
    have "R bw (storeHandler p n h bw)" by (rule store)
    also have "R \<dots> (snd (finishOption p vs
       (ApplicationCommandOption n ds ApplicationCommandOptionSubCommand
          (LVAsBool (RawGetString d ''required'')) []) (storeHandler p n h bw)))"
      by (rule fin)
    finally (trans) show ?thesis using leaf by (simp add: parseOptions_subcommand_leaf)
  next
    case (nested a d n ds t h a' d')
    let ?r = "parseOptions (p @ ''_'' @ n) (ForEach a' d') (storeHandler p n h bw)"
    have "R bw (storeHandler p n h bw)" by (rule store)
    also have "R \<dots> (snd ?r)"
      by (rule Cons.IH(2) [OF nested(1) nested(7)])
    finally (trans) have 1: "R bw (snd ?r)" .
    show ?thesis
    proof (cases "fst ?r")
      case (Inl e)
      with 1 nested show ?thesis
        by (simp add: parseOptions_subcommand_nested)
    next
      case (Inr subs)
      from 1 fin [of "snd ?r"] have "R bw (snd (finishOption p vs
            (ApplicationCommandOption n ds ApplicationCommandOptionSubCommand
               (LVAsBool (RawGetString d ''required'')) subs) (snd ?r)))"
        by (rule trans)
      with Inr nested show ?thesis
        by (simp add: parseOptions_subcommand_nested)
    qed
  qed
qed


lemma parseOptions_untouched:
  "Session (fst (snd (parseOptions p vs bw))) = Session (fst bw) \<and>
   GuildID (fst (snd (parseOptions p vs bw))) = GuildID (fst bw) \<and>
   waitRegister (fst (snd (parseOptions p vs bw))) = waitRegister (fst bw) \<and>
   calls (snd (snd (parseOptions p vs bw))) = calls (snd bw) \<and>
   invoked (snd (snd (parseOptions p vs bw))) = invoked (snd bw)"
  by (rule parseOptions_steps
        [where R = "\<lambda>x y. Session (fst y) = Session (fst x) \<and> GuildID (fst y) = GuildID (fst x) \<and>
                       waitRegister (fst y) = waitRegister (fst x) \<and>
                       calls (snd y) = calls (snd x) \<and> invoked (snd y) = invoked (snd x)"])
     (simp_all add: slog_def storeHandler_def SetGlobal_def)

text \<open>Every error that \<open>parseOptions\<close> raises is an argument error for the first argument.\<close>

lemma parseOptions_failure:
  "fst (parseOptions p vs bw) = Inl e \<Longrightarrow> \<exists>msg. e = ArgError 1 msg"
proof (induction p vs bw rule: parseOptions_induct2)
  case (Nil p bw)
  then show ?case by simp
next
  case (Cons p v vs bw)
  have fin: "\<exists>msg. e = ArgError 1 msg" if "fst (finishOption p vs opt x) = Inl e" for opt x
    using that Cons.IH(1) [of p "(fst x, slog Debug ''Parsed command option'' (snd x))"]
    by (simp add: fst_finishOption split: sum.splits)
  show ?case
  proof (cases v rule: option_entry_cases)
    case skip
    with Cons.prems Cons.IH(1) show ?thesis by (simp add: parseOptions_skip)
  next
    case (bad_name a d)
    with Cons.prems show ?thesis by (auto simp: parseOptions_bad_name)
  next
    case (bad_description a d n)
    with Cons.prems show ?thesis by (auto simp: parseOptions_bad_description)
  next
    case (bad_type a d n ds)
    with Cons.prems show ?thesis by (auto simp: parseOptions_bad_type)
  next
    case (plain a d n ds t)
    with Cons.prems fin show ?thesis by (simp add: parseOptions_plain)
  next
    case (no_handler a d n ds t)
    with Cons.prems show ?thesis by (auto simp: parseOptions_no_handler)
  next
    case (leaf a d n ds t h)
    with Cons.prems fin show ?thesis by (simp add: parseOptions_subcommand_leaf)
  next
    case (nested a d n ds t h a' d')
    let ?r = "parseOptions (p @ ''_'' @ n) (ForEach a' d') (storeHandler p n h bw)"
    show ?thesis
    proof (cases "fst ?r")
      case (Inl e')
      with Cons.prems nested have "e = e'" by (simp add: parseOptions_subcommand_nested)
      with Inl Cons.IH(2) [OF nested(1) nested(7)] show ?thesis by simp
    next
      case (Inr subs)
      with Cons.prems nested fin show ?thesis by (simp add: parseOptions_subcommand_nested)
    qed
  qed
qed

lemma raisingOption_table:
  "raisingOption (LTable a d) =
     (Type (RawGetString d ''name'') \<noteq> LTString \<or>
      Type (RawGetString d ''description'') \<noteq> LTString \<or>
      Type (RawGetString d ''type'') \<noteq> LTNumber \<or>
      (\<exists>t. RawGetString d ''type'' = LNumber t \<and>
           uint8_of t = ApplicationCommandOptionSubCommand \<and>
           Type (RawGetString d ''handler'') \<noteq> LTFunction))"
  by (cases "RawGetString d ''type''") (simp_all add: raisingOption_def)

lemma raisingOption_not_table: "Type v \<noteq> LTTable \<Longrightarrow> \<not> raisingOption v"
  by (cases v) (simp_all add: raisingOption_def)

lemma parseOptions_raises:
  "\<exists>v\<in>set vs. raisingOption v \<Longrightarrow> \<exists>msg. fst (parseOptions p vs bw) = Inl (ArgError 1 msg)"
proof (induction p vs bw rule: parseOptions_induct2)
  case (Nil p bw)
  then show ?case by simp
next
  case (Cons p v vs bw)
  have fin: "\<exists>msg. fst (finishOption p vs opt x) = Inl (ArgError 1 msg)"
    if "\<exists>v\<in>set vs. raisingOption v" for opt x
    using Cons.IH(1) [OF that, of p "(fst x, slog Debug ''Parsed command option'' (snd x))"]
    by (auto simp: fst_finishOption)
  show ?case
  proof (cases v rule: option_entry_cases)
    case skip
    with Cons.prems have "\<exists>v\<in>set vs. raisingOption v"
      by (auto dest: raisingOption_not_table)
    from Cons.IH(1) [OF this] skip show ?thesis by (simp add: parseOptions_skip)
  next
    case (bad_name a d)
    then show ?thesis by (simp add: parseOptions_bad_name)
  next
    case (bad_description a d n)
    then show ?thesis by (simp add: parseOptions_bad_description)
  next
    case (bad_type a d n ds)
    then show ?thesis by (simp add: parseOptions_bad_type)
  next
    case (plain a d n ds t)
    with Cons.prems have "\<exists>v\<in>set vs. raisingOption v"
      by (auto simp: raisingOption_table)
    from fin [OF this] plain show ?thesis by (simp add: parseOptions_plain)
  next
    case (no_handler a d n ds t)
    then show ?thesis by (simp add: parseOptions_no_handler)
  next
    case (leaf a d n ds t h)
    with Cons.prems have "\<exists>v\<in>set vs. raisingOption v"
      by (auto simp: raisingOption_table)
    from fin [OF this] leaf show ?thesis by (simp add: parseOptions_subcommand_leaf)
  next
    case (nested a d n ds t h a' d')
    with Cons.prems have rest: "\<exists>v\<in>set vs. raisingOption v"
      by (auto simp: raisingOption_table)
    let ?r = "parseOptions (p @ ''_'' @ n) (ForEach a' d') (storeHandler p n h bw)"
    show ?thesis
    proof (cases "fst ?r")
      case (Inl e')
      with parseOptions_failure [of "p @ ''_'' @ n" "ForEach a' d'" "storeHandler p n h bw" e']
      obtain msg where "e' = ArgError 1 msg" by auto
      with Inl nested show ?thesis by (simp add: parseOptions_subcommand_nested)
    next
      case (Inr subs)
      with fin [OF rest] nested show ?thesis by (simp add: parseOptions_subcommand_nested)
    qed
  qed
qed

lemma subcommandWithoutHandler_raising: "subcommandWithoutHandler v \<Longrightarrow> raisingOption v"
  by (cases v) (auto simp: subcommandWithoutHandler_def raisingOption_table uint8_of_def truncateToZero_def)

lemma Register_not_table:
  "Type command \<noteq> LTTable \<Longrightarrow> Register perr command bw = (Some (TypeError 1 LTTable), bw)"
  by (cases command) (simp_all add: Register_def)

lemma Register_bad_name:
  "Type (RawGetString cd ''name'') \<noteq> LTString \<Longrightarrow>
   Register perr (LTable ca cd) bw = (Some (ArgError 1 '''name' must be a string''), bw)"
  by (cases "RawGetString cd ''name''") (simp_all add: Register_def)

lemma Register_bad_description:
  "Type (RawGetString cd ''name'') = LTString \<Longrightarrow>
   Type (RawGetString cd ''description'') \<noteq> LTString \<Longrightarrow>
   Register perr (LTable ca cd) bw = (Some (ArgError 1 '''description' must be a string''), bw)"
  by (cases "RawGetString cd ''name''"; cases "RawGetString cd ''description''")
     (simp_all add: Register_def)

lemma Register_bad_handler:
  "Type (RawGetString cd ''name'') = LTString \<Longrightarrow>
   Type (RawGetString cd ''description'') = LTString \<Longrightarrow>
   RawGetString cd ''handler'' \<noteq> LNil \<Longrightarrow>
   Type (RawGetString cd ''handler'') \<noteq> LTFunction \<Longrightarrow>
   Register perr (LTable ca cd) bw =
     (Some (ArgError 1 '''handler' must be a function if provided''), bw)"
  by (cases "RawGetString cd ''name''"; cases "RawGetString cd ''description''")
     (simp_all add: Register_def Let_def)

lemma Register_bad_options:
  "Type (RawGetString cd ''name'') = LTString \<Longrightarrow>
   Type (RawGetString cd ''description'') = LTString \<Longrightarrow>
   RawGetString cd ''handler'' = LNil \<or> Type (RawGetString cd ''handler'') = LTFunction \<Longrightarrow>
   RawGetString cd ''options'' \<noteq> LNil \<Longrightarrow>
   Type (RawGetString cd ''options'') \<noteq> LTTable \<Longrightarrow>
   Register perr (LTable ca cd) bw =
     (Some (ArgError 1 '''options' must be a table if provided''), bw)"
  by (cases "RawGetString cd ''name''"; cases "RawGetString cd ''description''")
     (auto simp add: Register_def Let_def)

lemma Register_valid:
  assumes "RawGetString cd ''name'' = LString n"
    and "RawGetString cd ''description'' = LString ds"
    and "RawGetString cd ''handler'' = LNil \<or> Type (RawGetString cd ''handler'') = LTFunction"
    and "RawGetString cd ''options'' = LNil \<or> Type (RawGetString cd ''options'') = LTTable"
  shows "Register perr (LTable ca cd) bw =
     (case fst (parseCommandOptions n (RawGetString cd ''options'')
                  (storeCommandHandler n (RawGetString cd ''handler'') bw)) of
        Inl e \<Rightarrow>
          (Some e, snd (parseCommandOptions n (RawGetString cd ''options'')
                          (storeCommandHandler n (RawGetString cd ''handler'') bw)))
      | Inr commandOptions \<Rightarrow>
          registerOrQueue perr \<lparr>Name = n, Description = ds, Options = commandOptions\<rparr>
            (snd (parseCommandOptions n (RawGetString cd ''options'')
                    (storeCommandHandler n (RawGetString cd ''handler'') bw))))"
proof -
  define bw1 where "bw1 = storeCommandHandler n (RawGetString cd ''handler'') bw"
  define r where "r = parseCommandOptions n (RawGetString cd ''options'') bw1"
  have ok: "\<not> (RawGetString cd ''handler'' \<noteq> LNil \<and> Type (RawGetString cd ''handler'') \<noteq> LTFunction)"
    "\<not> (RawGetString cd ''options'' \<noteq> LNil \<and> Type (RawGetString cd ''options'') \<noteq> LTTable)"
    using assms(3,4) by auto
  have "Register perr (LTable ca cd) bw =
     (case fst r of
        Inl e \<Rightarrow> (Some e, snd r)
      | Inr commandOptions \<Rightarrow>
          registerOrQueue perr \<lparr>Name = n, Description = ds, Options = commandOptions\<rparr> (snd r))"
    unfolding Register_def
    apply (simp only: lvalue.case assms(1,2) Let_def ok if_False)
    apply (fold storeCommandHandler_def)
    apply (fold parseCommandOptions_def)
    apply (fold bw1_def)
    apply (fold r_def)
    apply (cases r; cases "fst r")
    apply (simp_all add: registerOrQueue_def split: option.splits prod.splits)
    done
  then show ?thesis unfolding r_def bw1_def .
qed

lemma Register_cases [case_names not_table bad_name bad_description bad_handler bad_options valid]:
  obtains
    (not_table) "Type command \<noteq> LTTable"
  | (bad_name) ca cd where "command = LTable ca cd" "Type (RawGetString cd ''name'') \<noteq> LTString"
  | (bad_description) ca cd where "command = LTable ca cd"
      "Type (RawGetString cd ''name'') = LTString"
      "Type (RawGetString cd ''description'') \<noteq> LTString"
  | (bad_handler) ca cd where "command = LTable ca cd"
      "Type (RawGetString cd ''name'') = LTString"
      "Type (RawGetString cd ''description'') = LTString"
      "RawGetString cd ''handler'' \<noteq> LNil" "Type (RawGetString cd ''handler'') \<noteq> LTFunction"
  | (bad_options) ca cd where "command = LTable ca cd"
      "Type (RawGetString cd ''name'') = LTString"
      "Type (RawGetString cd ''description'') = LTString"
      "RawGetString cd ''handler'' = LNil \<or> Type (RawGetString cd ''handler'') = LTFunction"
      "RawGetString cd ''options'' \<noteq> LNil" "Type (RawGetString cd ''options'') \<noteq> LTTable"
  | (valid) ca cd n ds where "command = LTable ca cd"
      "RawGetString cd ''name'' = LString n" "RawGetString cd ''description'' = LString ds"
      "RawGetString cd ''handler'' = LNil \<or> Type (RawGetString cd ''handler'') = LTFunction"
      "RawGetString cd ''options'' = LNil \<or> Type (RawGetString cd ''options'') = LTTable"
proof (cases "Type command = LTTable")
  case False
  then show ?thesis by (rule not_table)
next
  case True
  then obtain ca cd where c: "command = LTable ca cd" by (auto simp: Type_Table)
  show ?thesis
  proof (cases "Type (RawGetString cd ''name'') = LTString")
    case False
    with c show ?thesis by (rule bad_name)
  next
    case nm: True
    show ?thesis
    proof (cases "Type (RawGetString cd ''description'') = LTString")
      case False
      with c nm show ?thesis by (rule bad_description)
    next
      case ds: True
      show ?thesis
      proof (cases "RawGetString cd ''handler'' = LNil \<or> Type (RawGetString cd ''handler'') = LTFunction")
        case False
        with c nm ds show ?thesis by (intro bad_handler) blast+
      next
        case h: True
        show ?thesis
        proof (cases "RawGetString cd ''options'' = LNil \<or> Type (RawGetString cd ''options'') = LTTable")
          case False
          with c nm ds h show ?thesis by (intro bad_options) blast+
        next
          case True
          from nm ds obtain n d where "RawGetString cd ''name'' = LString n"
            "RawGetString cd ''description'' = LString d" by (auto simp: Type_String)
          with c h True show ?thesis by (intro valid)
        qed
      qed
    qed
  qed
qed

lemma parseCommandOptions_untouched:
  "Session (fst (snd (parseCommandOptions n opts bw))) = Session (fst bw) \<and>
   GuildID (fst (snd (parseCommandOptions n opts bw))) = GuildID (fst bw) \<and>
   waitRegister (fst (snd (parseCommandOptions n opts bw))) = waitRegister (fst bw) \<and>
   calls (snd (snd (parseCommandOptions n opts bw))) = calls (snd bw) \<and>
   invoked (snd (snd (parseCommandOptions n opts bw))) = invoked (snd bw)"
  by (cases opts) (simp_all add: parseCommandOptions_def parseOptions_untouched)

lemma storeCommandHandler_untouched:
  "Session (fst (storeCommandHandler n h bw)) = Session (fst bw) \<and>
   GuildID (fst (storeCommandHandler n h bw)) = GuildID (fst bw) \<and>
   waitRegister (fst (storeCommandHandler n h bw)) = waitRegister (fst bw) \<and>
   calls (snd (storeCommandHandler n h bw)) = calls (snd bw) \<and>
   invoked (snd (storeCommandHandler n h bw)) = invoked (snd bw)"
  by (simp add: storeCommandHandler_def SetGlobal_def)

text \<open>While the binding has no session, \<open>Register\<close> makes no platform call.\<close>

lemma Register_unbound_calls:
  assumes "Session (fst bw) = None"
  shows "calls (snd (snd (Register perr command bw))) = calls (snd bw)"
proof (cases command rule: Register_cases)
  case not_table
  then show ?thesis by (simp add: Register_not_table)
next
  case (bad_name ca cd)
  then show ?thesis by (simp add: Register_bad_name)
next
  case (bad_description ca cd)
  then show ?thesis by (simp add: Register_bad_description)
next
  case (bad_handler ca cd)
  then show ?thesis by (simp add: Register_bad_handler)
next
  case (bad_options ca cd)
  then show ?thesis by (simp add: Register_bad_options)
next
  case (valid ca cd n ds)
  let ?r = "parseCommandOptions n (RawGetString cd ''options'')
              (storeCommandHandler n (RawGetString cd ''handler'') bw)"
  have s: "Session (fst (snd ?r)) = None" and c: "calls (snd (snd ?r)) = calls (snd bw)"
    using assms by (simp_all add: parseCommandOptions_untouched storeCommandHandler_untouched)
  show ?thesis
    unfolding valid(1) Register_valid [OF valid(2-5)]
    using s c by (cases "fst ?r") (simp_all add: registerOrQueue_def)
qed

text \<open>
  While the binding has no session, a registration that returns without error has
  appended one closure to the pending list.
\<close>

lemma Register_unbound_queue:
  assumes "Session (fst bw) = None" and "fst (Register perr command bw) = None"
  shows "\<exists>appCmd. waitRegister (fst (snd (Register perr command bw)))
                    = waitRegister (fst bw) @ [appCmd]"
proof (cases command rule: Register_cases)
  case not_table
  with assms(2) show ?thesis by (simp add: Register_not_table)
next
  case (bad_name ca cd)
  with assms(2) show ?thesis by (simp add: Register_bad_name)
next
  case (bad_description ca cd)
  with assms(2) show ?thesis by (simp add: Register_bad_description)
next
  case (bad_handler ca cd)
  with assms(2) show ?thesis by (simp add: Register_bad_handler)
next
  case (bad_options ca cd)
  with assms(2) show ?thesis by (simp add: Register_bad_options)
next
  case (valid ca cd n ds)
  let ?r = "parseCommandOptions n (RawGetString cd ''options'')
              (storeCommandHandler n (RawGetString cd ''handler'') bw)"
  have s: "Session (fst (snd ?r)) = None"
    and q: "waitRegister (fst (snd ?r)) = waitRegister (fst bw)"
    using assms(1) by (simp_all add: parseCommandOptions_untouched storeCommandHandler_untouched)
  show ?thesis
    using assms(2) s q
    unfolding valid(1) Register_valid [OF valid(2-5)]
    by (cases "fst ?r") (simp_all add: registerOrQueue_def)
qed

section \<open>Properties of the deferred registration\<close>

lemma replay_calls:
  "fst (replay perr g (Some s) fs w) = None \<Longrightarrow>
   calls (snd (replay perr g (Some s) fs w)) = calls w @ map (\<lambda>c. (StateUserID s, g, c)) fs"
proof (induction fs arbitrary: w)
  case Nil
  then show ?case by simp
next
  case (Cons f fs)
  show ?case
  proof (cases "perr (calls w) (StateUserID s, g, f)")
    case None
    with Cons.prems Cons.IH [of "w\<lparr>calls := calls w @ [(StateUserID s, g, f)]\<rparr>"]
    show ?thesis by (simp add: registerClosure_def ApplicationCommandCreate_def)
  next
    case (Some err)
    with Cons.prems show ?thesis
      by (simp add: registerClosure_def ApplicationCommandCreate_def)
  qed
qed

lemma replay_accepting:
  "\<forall>h c. perr h c = None \<Longrightarrow> fst (replay perr g (Some s) fs w) = None"
  by (induction fs arbitrary: w) (simp_all add: registerClosure_def ApplicationCommandCreate_def)

lemma SetSession_parts:
  "SetSession perr session b w =
     (fst (replay perr (GuildID b) session (waitRegister b)
             (slog Info ''Setting session for ApplicationCommandBinding'' w)),
      b\<lparr>Session := session\<rparr>,
      snd (replay perr (GuildID b) session (waitRegister b)
             (slog Info ''Setting session for ApplicationCommandBinding'' w)))"
  by (simp add: SetSession_def Let_def split: prod.splits)

text \<open>
  C1, as the claim states it, fails: \<open>SetSession\<close> does not discard the pending list. A
  command registered without a session is created on the platform once more by every
  further call of \<open>SetSession\<close>.
\<close>

theorem C1_second_SetSession_counterexample:
  "calls (snd (snd
     (SetSession (\<lambda>h c. None) (Some \<lparr>StateUserID = ''u''\<rparr>)
        (fst (snd (SetSession (\<lambda>h c. None) (Some \<lparr>StateUserID = ''u''\<rparr>)
           (fst (snd (Register (\<lambda>h c. None)
              (LTable [] [(''name'', LString ''foo''), (''description'', LString ''d'')])
              (freshBinding, freshWorld))))
           (snd (snd (Register (\<lambda>h c. None)
              (LTable [] [(''name'', LString ''foo''), (''description'', LString ''d'')])
              (freshBinding, freshWorld)))))))
        (snd (snd (SetSession (\<lambda>h c. None) (Some \<lparr>StateUserID = ''u''\<rparr>)
           (fst (snd (Register (\<lambda>h c. None)
              (LTable [] [(''name'', LString ''foo''), (''description'', LString ''d'')])
              (freshBinding, freshWorld))))
           (snd (snd (Register (\<lambda>h c. None)
              (LTable [] [(''name'', LString ''foo''), (''description'', LString ''d'')])
              (freshBinding, freshWorld))))))))))
   = [(''u'', ''guild'', \<lparr>Name = ''foo'', Description = ''d'', Options = []\<rparr>),
      (''u'', ''guild'', \<lparr>Name = ''foo'', Description = ''d'', Options = []\<rparr>)]"
  by (simp add: Register_def RawGetString_def Let_def SetSession_parts registerClosure_def
        ApplicationCommandCreate_def slog_def freshBinding_def freshWorld_def)

text \<open>
  When none of the platform calls of a replay fails, the replay returns and has called
  every pending closure, in the order of the list.
\<close>

lemma replay_no_failure:
  "\<forall>i<length fs. perr (calls w @ map (\<lambda>c. (StateUserID s, g, c)) (take i fs))
                       (StateUserID s, g, fs ! i) = None \<Longrightarrow>
   fst (replay perr g (Some s) fs w) = None \<and>
   calls (snd (replay perr g (Some s) fs w)) = calls w @ map (\<lambda>c. (StateUserID s, g, c)) fs"
proof (induction fs arbitrary: w)
  case Nil
  then show ?case by simp
next
  case (Cons f fs)
  let ?w' = "w\<lparr>calls := calls w @ [(StateUserID s, g, f)]\<rparr>"
  from Cons.prems have first: "perr (calls w) (StateUserID s, g, f) = None"
    by (auto dest: spec [of _ 0])
  have "\<forall>i<length fs. perr (calls ?w' @ map (\<lambda>c. (StateUserID s, g, c)) (take i fs))
                       (StateUserID s, g, fs ! i) = None"
  proof (intro allI impI)
    fix i assume "i < length fs"
    with Cons.prems have "perr (calls w @ map (\<lambda>c. (StateUserID s, g, c)) (take (Suc i) (f # fs)))
                       (StateUserID s, g, (f # fs) ! Suc i) = None"
      by (auto dest: spec [of _ "Suc i"])
    then show "perr (calls ?w' @ map (\<lambda>c. (StateUserID s, g, c)) (take i fs))
                       (StateUserID s, g, fs ! i) = None"
      by simp
  qed
  from Cons.IH [OF this] first show ?case
    by (simp add: registerClosure_def ApplicationCommandCreate_def)
qed

text \<open>
  C1, amended: a registration made while the binding has no session makes no platform
  call, and when it returns without error it has appended one closure to the pending
  list. When \<open>SetSession\<close> is called with a session and no platform call of the replay
  fails, the session is stored and every pending closure is called against the platform
  exactly once in that call, in the order in which the registrations were queued.
  \<open>SetSession\<close> keeps the pending list as it is, so a second \<open>SetSession\<close> replays the same
  closures again.
\<close>

theorem C1_deferred_registration:
  "(Session (fst bw) = None \<longrightarrow>
      calls (snd (snd (Register perr command bw))) = calls (snd bw))
   \<and> (Session (fst bw) = None \<longrightarrow> fst (Register perr command bw) = None \<longrightarrow>
      (\<exists>appCmd. waitRegister (fst (snd (Register perr command bw)))
                  = waitRegister (fst bw) @ [appCmd]))
   \<and> ((\<forall>i<length (waitRegister b).
          perr (calls w @ map (\<lambda>c. (StateUserID s, GuildID b, c)) (take i (waitRegister b)))
               (StateUserID s, GuildID b, waitRegister b ! i) = None) \<longrightarrow>
      fst (SetSession perr (Some s) b w) = None
      \<and> calls (snd (snd (SetSession perr (Some s) b w)))
          = calls w @ map (\<lambda>c. (StateUserID s, GuildID b, c)) (waitRegister b))
   \<and> (fst (SetSession perr (Some s) b w) = None \<longrightarrow>
      calls (snd (snd (SetSession perr (Some s) b w)))
        = calls w @ map (\<lambda>c. (StateUserID s, GuildID b, c)) (waitRegister b))
   \<and> ((\<forall>h c. perr h c = None) \<longrightarrow> fst (SetSession perr (Some s) b w) = None)
   \<and> waitRegister (fst (snd (SetSession perr session b w))) = waitRegister b
   \<and> Session (fst (snd (SetSession perr session b w))) = session
   \<and> (fst (SetSession perr (Some s) b w) = None \<longrightarrow>
      fst (SetSession perr (Some s2) (fst (snd (SetSession perr (Some s) b w)))
             (snd (snd (SetSession perr (Some s) b w)))) = None \<longrightarrow>
      calls (snd (snd (SetSession perr (Some s2) (fst (snd (SetSession perr (Some s) b w)))
                         (snd (snd (SetSession perr (Some s) b w))))))
        = calls w @ map (\<lambda>c. (StateUserID s, GuildID b, c)) (waitRegister b)
                  @ map (\<lambda>c. (StateUserID s2, GuildID b, c)) (waitRegister b))"
proof (intro conjI impI)
  assume "Session (fst bw) = None"
  then show "calls (snd (snd (Register perr command bw))) = calls (snd bw)"
    by (rule Register_unbound_calls)
next
  assume "Session (fst bw) = None" and "fst (Register perr command bw) = None"
  then show "\<exists>appCmd. waitRegister (fst (snd (Register perr command bw)))
                  = waitRegister (fst bw) @ [appCmd]"
    by (rule Register_unbound_queue)
next
  assume ok: "\<forall>i<length (waitRegister b).
          perr (calls w @ map (\<lambda>c. (StateUserID s, GuildID b, c)) (take i (waitRegister b)))
               (StateUserID s, GuildID b, waitRegister b ! i) = None"
  note r = replay_no_failure [of "waitRegister b" perr
      "slog Info ''Setting session for ApplicationCommandBinding'' w" s "GuildID b"]
  from ok r show "fst (SetSession perr (Some s) b w) = None"
    by (simp add: SetSession_parts slog_def)
  from ok r show "calls (snd (snd (SetSession perr (Some s) b w)))
          = calls w @ map (\<lambda>c. (StateUserID s, GuildID b, c)) (waitRegister b)"
    by (simp add: SetSession_parts slog_def)
next
  assume "fst (SetSession perr (Some s) b w) = None"
  then show "calls (snd (snd (SetSession perr (Some s) b w)))
        = calls w @ map (\<lambda>c. (StateUserID s, GuildID b, c)) (waitRegister b)"
    by (simp add: SetSession_parts replay_calls) (simp add: slog_def)
next
  assume "\<forall>h c. perr h c = None"
  then show "fst (SetSession perr (Some s) b w) = None"
    by (simp add: SetSession_parts replay_accepting)
next
  show "waitRegister (fst (snd (SetSession perr session b w))) = waitRegister b"
    by (simp add: SetSession_parts)
next
  show "Session (fst (snd (SetSession perr session b w))) = session"
    by (simp add: SetSession_parts)
next
  let ?b1 = "fst (snd (SetSession perr (Some s) b w))"
  let ?w1 = "snd (snd (SetSession perr (Some s) b w))"
  assume 1: "fst (SetSession perr (Some s) b w) = None"
    and 2: "fst (SetSession perr (Some s2) ?b1 ?w1) = None"
  from 1 have c1: "calls ?w1 = calls w @ map (\<lambda>c. (StateUserID s, GuildID b, c)) (waitRegister b)"
    by (simp add: SetSession_parts replay_calls) (simp add: slog_def)
  have same: "waitRegister ?b1 = waitRegister b" "GuildID ?b1 = GuildID b"
    by (simp_all add: SetSession_parts)
  from 2 have "calls (snd (snd (SetSession perr (Some s2) ?b1 ?w1)))
      = calls ?w1 @ map (\<lambda>c. (StateUserID s2, GuildID ?b1, c)) (waitRegister ?b1)"
    by (simp add: SetSession_parts [of perr "Some s2"] replay_calls) (simp add: slog_def)
  with c1 same show "calls (snd (snd (SetSession perr (Some s2) ?b1 ?w1)))
        = calls w @ map (\<lambda>c. (StateUserID s, GuildID b, c)) (waitRegister b)
                  @ map (\<lambda>c. (StateUserID s2, GuildID b, c)) (waitRegister b)"
    by simp
qed

theorem C1_deferred_registration_witness:
  "calls (snd (snd (Register (\<lambda>h c. None)
      (LTable [] [(''name'', LString ''foo''), (''description'', LString ''d'')])
      (freshBinding, freshWorld)))) = []
   \<and> waitRegister (fst (snd (Register (\<lambda>h c. None)
      (LTable [] [(''name'', LString ''foo''), (''description'', LString ''d'')])
      (freshBinding, freshWorld))))
     = [\<lparr>Name = ''foo'', Description = ''d'', Options = []\<rparr>]
   \<and> calls (snd (snd (SetSession (\<lambda>h c. if Name (snd (snd c)) = ''zap'' then Some ''refused'' else None)
        (Some \<lparr>StateUserID = ''u''\<rparr>)
        (freshBinding\<lparr>waitRegister := [\<lparr>Name = ''foo'', Description = ''d'', Options = []\<rparr>,
                                          \<lparr>Name = ''baz'', Description = ''e'', Options = []\<rparr>]\<rparr>)
        freshWorld)))
     = [(''u'', ''guild'', \<lparr>Name = ''foo'', Description = ''d'', Options = []\<rparr>),
        (''u'', ''guild'', \<lparr>Name = ''baz'', Description = ''e'', Options = []\<rparr>)]
   \<and> waitRegister (fst (snd (SetSession (\<lambda>h c. if Name (snd (snd c)) = ''zap'' then Some ''refused'' else None)
        (Some \<lparr>StateUserID = ''u''\<rparr>)
        (freshBinding\<lparr>waitRegister := [\<lparr>Name = ''foo'', Description = ''d'', Options = []\<rparr>,
                                          \<lparr>Name = ''baz'', Description = ''e'', Options = []\<rparr>]\<rparr>)
        freshWorld)))
     = [\<lparr>Name = ''foo'', Description = ''d'', Options = []\<rparr>,
        \<lparr>Name = ''baz'', Description = ''e'', Options = []\<rparr>]"
proof -
  let ?perr = "\<lambda>h c. if Name (snd (snd c)) = ''zap'' then Some ''refused'' else None"
  let ?b = "freshBinding\<lparr>waitRegister := [\<lparr>Name = ''foo'', Description = ''d'', Options = []\<rparr>,
                                          \<lparr>Name = ''baz'', Description = ''e'', Options = []\<rparr>]\<rparr>"
  have r: "Register (\<lambda>h c. None)
      (LTable [] [(''name'', LString ''foo''), (''description'', LString ''d'')])
      (freshBinding, freshWorld)
    = (None, freshBinding\<lparr>waitRegister := [\<lparr>Name = ''foo'', Description = ''d'', Options = []\<rparr>]\<rparr>,
       freshWorld)"
    by (simp add: Register_def RawGetString_def Let_def freshBinding_def)
  have ok: "\<forall>i<length (waitRegister ?b).
          ?perr (calls freshWorld @ map (\<lambda>c. (StateUserID \<lparr>StateUserID = ''u''\<rparr>, GuildID ?b, c))
                                       (take i (waitRegister ?b)))
               (StateUserID \<lparr>StateUserID = ''u''\<rparr>, GuildID ?b, waitRegister ?b ! i) = None"
    by (simp add: less_Suc_eq all_conj_distrib)
  have 1: "calls (snd (snd (Register (\<lambda>h c. None)
      (LTable [] [(''name'', LString ''foo''), (''description'', LString ''d'')])
      (freshBinding, freshWorld)))) = []
   \<and> waitRegister (fst (snd (Register (\<lambda>h c. None)
      (LTable [] [(''name'', LString ''foo''), (''description'', LString ''d'')])
      (freshBinding, freshWorld))))
     = [\<lparr>Name = ''foo'', Description = ''d'', Options = []\<rparr>]"
    using C1_deferred_registration
      [where bw = "(freshBinding, freshWorld)" and perr = "\<lambda>h c. None"
         and command = "LTable [] [(''name'', LString ''foo''), (''description'', LString ''d'')]"]
    by (simp add: r) (simp add: freshBinding_def freshWorld_def)
  have 2: "calls (snd (snd (SetSession ?perr (Some \<lparr>StateUserID = ''u''\<rparr>) ?b freshWorld)))
     = [(''u'', ''guild'', \<lparr>Name = ''foo'', Description = ''d'', Options = []\<rparr>),
        (''u'', ''guild'', \<lparr>Name = ''baz'', Description = ''e'', Options = []\<rparr>)]
    \<and> waitRegister (fst (snd (SetSession ?perr (Some \<lparr>StateUserID = ''u''\<rparr>) ?b freshWorld)))
     = [\<lparr>Name = ''foo'', Description = ''d'', Options = []\<rparr>,
        \<lparr>Name = ''baz'', Description = ''e'', Options = []\<rparr>]"
    using ok C1_deferred_registration
      [where perr = ?perr and s = "\<lparr>StateUserID = ''u''\<rparr>" and b = ?b and w = freshWorld
         and session = "Some \<lparr>StateUserID = ''u''\<rparr>"]
    by (simp add: freshBinding_def freshWorld_def)
  from 1 2 show ?thesis by simp
qed

section \<open>Properties of the validation\<close>

lemma Register_invalid_descriptor:
  assumes "Type (RawGetString cd ''name'') \<noteq> LTString \<or>
           Type (RawGetString cd ''description'') \<noteq> LTString \<or>
           (RawGetString cd ''handler'' \<noteq> LNil \<and> Type (RawGetString cd ''handler'') \<noteq> LTFunction) \<or>
           (RawGetString cd ''options'' \<noteq> LNil \<and> Type (RawGetString cd ''options'') \<noteq> LTTable)"
  shows "\<exists>msg. Register perr (LTable ca cd) bw = (Some (ArgError 1 msg), bw)"
proof (cases "LTable ca cd" rule: Register_cases)
  case not_table
  then show ?thesis by simp
next
  case (bad_name ca' cd')
  then show ?thesis by (simp add: Register_bad_name)
next
  case (bad_description ca' cd')
  then show ?thesis by (simp add: Register_bad_description)
next
  case (bad_handler ca' cd')
  then show ?thesis by (simp add: Register_bad_handler)
next
  case (bad_options ca' cd')
  then show ?thesis by (simp add: Register_bad_options)
next
  case (valid ca' cd' n ds)
  with assms show ?thesis by auto
qed

lemma Register_raising_option:
  assumes opts: "RawGetString cd ''options'' = LTable oa od"
    and bad: "\<exists>v\<in>set (ForEach oa od). raisingOption v"
  shows "(\<exists>msg. fst (Register perr (LTable ca cd) bw) = Some (ArgError 1 msg))
    \<and> calls (snd (snd (Register perr (LTable ca cd) bw))) = calls (snd bw)
    \<and> waitRegister (fst (snd (Register perr (LTable ca cd) bw))) = waitRegister (fst bw)"
proof (cases "LTable ca cd" rule: Register_cases)
  case not_table
  then show ?thesis by simp
next
  case (bad_name ca' cd')
  then show ?thesis by (simp add: Register_bad_name)
next
  case (bad_description ca' cd')
  then show ?thesis by (simp add: Register_bad_description)
next
  case (bad_handler ca' cd')
  then show ?thesis by (simp add: Register_bad_handler)
next
  case (bad_options ca' cd')
  then show ?thesis by (simp add: Register_bad_options)
next
  case (valid ca' cd' n ds)
  then have v: "RawGetString cd ''name'' = LString n" "RawGetString cd ''description'' = LString ds"
    "RawGetString cd ''handler'' = LNil \<or> Type (RawGetString cd ''handler'') = LTFunction"
    "RawGetString cd ''options'' = LNil \<or> Type (RawGetString cd ''options'') = LTTable"
    by simp_all
  let ?bw1 = "storeCommandHandler n (RawGetString cd ''handler'') bw"
  let ?r = "parseCommandOptions n (RawGetString cd ''options'') ?bw1"
  from parseOptions_raises [OF bad, of n ?bw1] opts
  obtain msg where e: "fst ?r = Inl (ArgError 1 msg)"
    by (auto simp: parseCommandOptions_def)
  have "calls (snd (snd ?r)) = calls (snd bw)" "waitRegister (fst (snd ?r)) = waitRegister (fst bw)"
    by (simp_all add: parseCommandOptions_untouched storeCommandHandler_untouched)
  with e show ?thesis
    unfolding Register_valid [OF v] by simp
qed

text \<open>
  C9, as the claim states it, fails for the subcommand without a handler: the command's
  own handler is stored before the options are parsed, so the record under \<open>foo\<close> is
  there when the argument error is raised.
\<close>

theorem C9_record_stored_counterexample:
  "fst (Register (\<lambda>h c. None)
          (LTable [] [(''name'', LString ''foo''), (''description'', LString ''d''),
                      (''handler'', LFunction 1),
                      (''options'', LTable [LTable [] [(''name'', LString ''bar''),
                                                       (''description'', LString ''e''),
                                                       (''type'', LNumber 1)]] [])])
          (freshBinding, freshWorld))
   = Some (ArgError 1 ''Subcommand '%s' must have a 'handler' function'')
   \<and> Commands (fst (snd (Register (\<lambda>h c. None)
          (LTable [] [(''name'', LString ''foo''), (''description'', LString ''d''),
                      (''handler'', LFunction 1),
                      (''options'', LTable [LTable [] [(''name'', LString ''bar''),
                                                       (''description'', LString ''e''),
                                                       (''type'', LNumber 1)]] [])])
          (freshBinding, freshWorld)))) ''foo''
     = Some ''handler_foo''"
  by (simp add: Register_def RawGetString_def Let_def ForEach_def parseOptions.simps(2)
        uint8_of_def truncateToZero_def freshBinding_def)

text \<open>
  C9, amended: a registration whose descriptor has a non-string name, a non-string
  description, a present non-function handler or a present non-table options field
  raises an argument error and leaves the binding and the world as they were: no command
  record is stored and no platform call is made. A registration whose options hold a
  subcommand without a handler function raises an argument error before any platform
  call is made and before the registration is queued; the command records stored earlier
  in the same call (the command's own handler, subcommands parsed before) stay.
\<close>

theorem C9_validation_errors:
  "((Type (RawGetString cd ''name'') \<noteq> LTString \<or>
     Type (RawGetString cd ''description'') \<noteq> LTString \<or>
     (RawGetString cd ''handler'' \<noteq> LNil \<and> Type (RawGetString cd ''handler'') \<noteq> LTFunction) \<or>
     (RawGetString cd ''options'' \<noteq> LNil \<and> Type (RawGetString cd ''options'') \<noteq> LTTable)) \<longrightarrow>
    (\<exists>msg. Register perr (LTable ca cd) bw = (Some (ArgError 1 msg), bw)))
   \<and> (RawGetString cd2 ''options'' = LTable oa od \<longrightarrow>
      (\<exists>v\<in>set (ForEach oa od). subcommandWithoutHandler v) \<longrightarrow>
      (\<exists>msg. fst (Register perr (LTable ca2 cd2) bw) = Some (ArgError 1 msg))
      \<and> calls (snd (snd (Register perr (LTable ca2 cd2) bw))) = calls (snd bw)
      \<and> waitRegister (fst (snd (Register perr (LTable ca2 cd2) bw))) = waitRegister (fst bw))"
proof (intro conjI impI)
  assume "Type (RawGetString cd ''name'') \<noteq> LTString \<or>
     Type (RawGetString cd ''description'') \<noteq> LTString \<or>
     (RawGetString cd ''handler'' \<noteq> LNil \<and> Type (RawGetString cd ''handler'') \<noteq> LTFunction) \<or>
     (RawGetString cd ''options'' \<noteq> LNil \<and> Type (RawGetString cd ''options'') \<noteq> LTTable)"
  then show "\<exists>msg. Register perr (LTable ca cd) bw = (Some (ArgError 1 msg), bw)"
    by (rule Register_invalid_descriptor)
next
  assume opts: "RawGetString cd2 ''options'' = LTable oa od"
    and "\<exists>v\<in>set (ForEach oa od). subcommandWithoutHandler v"
  then have bad: "\<exists>v\<in>set (ForEach oa od). raisingOption v"
    by (auto dest: subcommandWithoutHandler_raising)
  note r = Register_raising_option [OF opts bad, of perr ca2 bw]
  from r show "\<exists>msg. fst (Register perr (LTable ca2 cd2) bw) = Some (ArgError 1 msg)" by simp
  from r show "calls (snd (snd (Register perr (LTable ca2 cd2) bw))) = calls (snd bw)" by simp
  from r show "waitRegister (fst (snd (Register perr (LTable ca2 cd2) bw))) = waitRegister (fst bw)"
    by simp
qed

theorem C9_validation_errors_witness:
  "Register (\<lambda>h c. None)
     (LTable [] [(''name'', LNumber 3), (''description'', LString ''d'')])
     (freshBinding\<lparr>Session := Some \<lparr>StateUserID = ''u''\<rparr>\<rparr>, freshWorld)
   = (Some (ArgError 1 '''name' must be a string''),
      freshBinding\<lparr>Session := Some \<lparr>StateUserID = ''u''\<rparr>\<rparr>, freshWorld)
   \<and> fst (Register (\<lambda>h c. None)
          (LTable [] [(''name'', LString ''foo''), (''description'', LString ''d''),
                      (''options'', LTable [LTable [] [(''name'', LString ''bar''),
                                                       (''description'', LString ''e''),
                                                       (''type'', LNumber 1)]] [])])
          (freshBinding\<lparr>Session := Some \<lparr>StateUserID = ''u''\<rparr>\<rparr>, freshWorld))
     = Some (ArgError 1 ''Subcommand '%s' must have a 'handler' function'')
   \<and> calls (snd (snd (Register (\<lambda>h c. None)
          (LTable [] [(''name'', LString ''foo''), (''description'', LString ''d''),
                      (''options'', LTable [LTable [] [(''name'', LString ''bar''),
                                                       (''description'', LString ''e''),
                                                       (''type'', LNumber 1)]] [])])
          (freshBinding\<lparr>Session := Some \<lparr>StateUserID = ''u''\<rparr>\<rparr>, freshWorld)))) = []"
  using C9_validation_errors
    [of "[(''name'', LNumber 3), (''description'', LString ''d'')]"
        "\<lambda>h c. None" "[]"
        "(freshBinding\<lparr>Session := Some \<lparr>StateUserID = ''u''\<rparr>\<rparr>, freshWorld)"
        "[(''name'', LString ''foo''), (''description'', LString ''d''),
          (''options'', LTable [LTable [] [(''name'', LString ''bar''),
                                           (''description'', LString ''e''),
                                           (''type'', LNumber 1)]] [])]"
        "[LTable [] [(''name'', LString ''bar''), (''description'', LString ''e''),
                     (''type'', LNumber 1)]]" "[]" "[]"]
  by (simp add: Register_def RawGetString_def Let_def ForEach_def parseOptions.simps(2)
        uint8_of_def truncateToZero_def subcommandWithoutHandler_def)
     (simp add: freshBinding_def freshWorld_def)

section \<open>Registration followed by dispatch\<close>






section \<open>Properties of the ready callbacks\<close>

text \<open>The decimal text of an integer determines the integer.\<close>

lemma digit_char_inj:
  "m < 10 \<Longrightarrow> n < 10 \<Longrightarrow> ''0123456789'' ! m = ''0123456789'' ! n \<Longrightarrow> m = n"
proof -
  have d: "distinct ''0123456789''" by simp
  assume "m < 10" "n < 10" "''0123456789'' ! m = ''0123456789'' ! n"
  with d show ?thesis by (simp add: nth_eq_iff_index_eq)
qed

lemma digits_small: "n < 10 \<Longrightarrow> digits n = [''0123456789'' ! n]"
  by simp

lemma digits_large: "\<not> n < 10 \<Longrightarrow> digits n = digits (n div 10) @ [''0123456789'' ! (n mod 10)]"
  by (subst digits.simps) simp

lemma digits_not_Nil: "digits n \<noteq> []"
  by (cases "n < 10") (simp_all add: digits_small digits_large del: digits.simps)

lemma digits_inj: "digits m = digits n \<Longrightarrow> m = n"
proof (induction m arbitrary: n rule: less_induct)
  case (less m)
  show ?case
  proof (cases "m < 10")
    case m: True
    show ?thesis
    proof (cases "n < 10")
      case True
      with m less.prems show ?thesis
        by (simp add: digits_small del: digits.simps) (rule digit_char_inj)
    next
      case False
      with m less.prems digits_not_Nil [of "n div 10"] show ?thesis
        by (simp add: digits_small digits_large del: digits.simps)
    qed
  next
    case m: False
    show ?thesis
    proof (cases "n < 10")
      case True
      with m less.prems digits_not_Nil [of "m div 10"] show ?thesis
        by (simp add: digits_small digits_large del: digits.simps)
    next
      case False
      with m less.prems have eq: "digits (m div 10) = digits (n div 10)"
        and ch: "''0123456789'' ! (m mod 10) = ''0123456789'' ! (n mod 10)"
        by (simp_all add: digits_large del: digits.simps)
      from m have "m div 10 < m" by simp
      from less.IH [OF this eq] have dv: "m div 10 = n div 10" .
      from ch have md: "m mod 10 = n mod 10"
        by (intro digit_char_inj) simp_all
      have "m = 10 * (m div 10) + m mod 10" by simp
      also have "\<dots> = 10 * (n div 10) + n mod 10" by (simp only: dv md)
      also have "\<dots> = n" by simp
      finally show ?thesis .
    qed
  qed
qed

lemma digit_char_mem: "n < 10 \<Longrightarrow> ''0123456789'' ! n \<in> set ''0123456789''"
  using nth_mem [of n "''0123456789''"] by simp

lemma digits_chars: "c \<in> set (digits n) \<Longrightarrow> c \<in> set ''0123456789''"
proof (induction n rule: less_induct)
  case (less n)
  show ?case
  proof (cases "n < 10")
    case True
    with less.prems have "c = ''0123456789'' ! n" by (simp add: digits_small del: digits.simps)
    with True show ?thesis by (simp only: digit_char_mem)
  next
    case False
    with less.prems have "c \<in> set (digits (n div 10)) \<or> c = ''0123456789'' ! (n mod 10)"
      by (auto simp add: digits_large simp del: digits.simps)
    then show ?thesis
    proof
      assume "c \<in> set (digits (n div 10))"
      moreover from False have "n div 10 < n" by simp
      ultimately show ?thesis by (rule less.IH [rotated])
    next
      assume "c = ''0123456789'' ! (n mod 10)"
      moreover have "n mod 10 < 10" by simp
      ultimately show ?thesis by (simp only: digit_char_mem)
    qed
  qed
qed

lemma digits_no_minus: "CHR ''-'' # s \<noteq> digits n"
proof
  assume "CHR ''-'' # s = digits n"
  then have "CHR ''-'' \<in> set (digits n)" by (metis list.set_intros(1))
  from digits_chars [OF this] show False by simp
qed

lemma show_int_inj: "show_int i = show_int j \<Longrightarrow> i = j"
proof -
  assume eq: "show_int i = show_int j"
  show ?thesis
  proof (cases "i < 0")
    case i: True
    show ?thesis
    proof (cases "j < 0")
      case True
      with i eq have "nat (- i) = nat (- j)"
        by (simp add: show_int_def digits_inj del: digits.simps)
      with i True show ?thesis by simp
    next
      case False
      with i eq digits_no_minus show ?thesis
        by (simp add: show_int_def del: digits.simps)
    qed
  next
    case i: False
    show ?thesis
    proof (cases "j < 0")
      case True
      with i eq digits_no_minus [of "digits (nat (- j))" "nat i"] show ?thesis
        by (simp add: show_int_def del: digits.simps)
    next
      case False
      with i eq have "nat i = nat j"
        by (simp add: show_int_def digits_inj del: digits.simps)
      with i False show ?thesis by simp
    qed
  qed
qed


lemma onReadyName_inj: "onReadyName s = onReadyName t \<Longrightarrow> s = t"
  by (simp add: onReadyName_def show_int_inj)

lemma on_ready_function:
  "on_ready now (LFunction f) mw =
     (None,
      (fst mw)\<lparr>OnReadyCbs := OnReadyCbs (fst mw) @ [onReadyName now]\<rparr>,
      (snd mw)\<lparr>globals := (globals (snd mw))(onReadyName now := LFunction f)\<rparr>)"
  by (simp add: on_ready_def onReadyName_def SetGlobal_def Let_def)

lemma on_ready_all_manager:
  "OnReadyCbs (fst (on_ready_all regs mw)) = OnReadyCbs (fst mw) @ map (\<lambda>r. onReadyName (fst r)) regs
   \<and> Bindings (fst (on_ready_all regs mw)) = Bindings (fst mw)"
  by (induction regs mw rule: on_ready_all.induct) (simp_all add: on_ready_function)

lemma on_ready_all_world:
  "invoked (snd (on_ready_all regs mw)) = invoked (snd mw)
   \<and> calls (snd (on_ready_all regs mw)) = calls (snd mw)
   \<and> logs (snd (on_ready_all regs mw)) = logs (snd mw)"
  by (induction regs mw rule: on_ready_all.induct) (simp_all add: on_ready_function)

lemma on_ready_all_globals_other:
  "\<forall>r\<in>set regs. onReadyName (fst r) \<noteq> n \<Longrightarrow>
   globals (snd (on_ready_all regs mw)) n = globals (snd mw) n"
  by (induction regs mw rule: on_ready_all.induct) (auto simp: on_ready_function)

lemma on_ready_all_globals:
  "distinct (map fst regs) \<Longrightarrow> (t, f) \<in> set regs \<Longrightarrow>
   globals (snd (on_ready_all regs mw)) (onReadyName t) = LFunction f"
proof (induction regs mw rule: on_ready_all.induct)
  case (1 mw)
  then show ?case by simp
next
  case (2 now g regs mw)
  show ?case
  proof (cases "(t, f) \<in> set regs")
    case True
    with 2 show ?thesis by simp
  next
    case False
    with "2.prems" have tf: "t = now" "f = g" by simp_all
    from "2.prems"(1) have "\<forall>r\<in>set regs. onReadyName (fst r) \<noteq> onReadyName now"
      by (auto dest: onReadyName_inj)
    from on_ready_all_globals_other [OF this] tf show ?thesis
      by (simp add: on_ready_function)
  qed
qed

lemma Do_readyTask_function:
  "globals w cb = LFunction f \<Longrightarrow>
   Do (readyTask sem cb) w =
     (case sem f [] (globals w) of
        (None, g') \<Rightarrow> w\<lparr>globals := g', invoked := invoked w @ [(f, [])]\<rparr>
      | (Some err, g') \<Rightarrow>
          w\<lparr>globals := g', invoked := invoked w @ [(f, [])],
            logs := logs w @ [(Error, ''Error executing Lua on_ready handler'')]\<rparr>)"
  by (simp add: Do_def readyTask_def CallByParam_def slog_def split: prod.splits option.splits)

lemma Do_readyTask_fields:
  "globals w cb = LFunction f \<Longrightarrow>
   invoked (Do (readyTask sem cb) w) = invoked w @ [(f, [])]
   \<and> calls (Do (readyTask sem cb) w) = calls w
   \<and> globals (Do (readyTask sem cb) w) = snd (sem f [] (globals w))"
  by (simp add: Do_readyTask_function split: prod.splits option.splits)

lemma ReadyHandler_loop_invoked:
  "\<forall>f args g. \<forall>p\<in>set ps. snd (sem f args g) (fst p) = g (fst p) \<Longrightarrow>
   \<forall>p\<in>set ps. globals w (fst p) = LFunction (snd p) \<Longrightarrow>
   invoked (ReadyHandler_loop sem (map fst ps) w) = invoked w @ map (\<lambda>p. (snd p, [])) ps
   \<and> calls (ReadyHandler_loop sem (map fst ps) w) = calls w"
proof (induction ps arbitrary: w)
  case Nil
  then show ?case by simp
next
  case (Cons p ps)
  let ?w' = "Do (readyTask sem (fst p)) w"
  from Cons.prems(2) have p: "globals w (fst p) = LFunction (snd p)" by simp
  note step = Do_readyTask_fields [OF p, of sem]
  have "\<forall>q\<in>set ps. globals ?w' (fst q) = LFunction (snd q)"
    using step Cons.prems by simp
  moreover have "\<forall>f args g. \<forall>q\<in>set ps. snd (sem f args g) (fst q) = g (fst q)"
    using Cons.prems(1) by simp
  ultimately have "invoked (ReadyHandler_loop sem (map fst ps) ?w') = invoked ?w' @ map (\<lambda>p. (snd p, [])) ps
     \<and> calls (ReadyHandler_loop sem (map fst ps) ?w') = calls ?w'"
    by (intro Cons.IH)
  with step show ?case by simp
qed

lemma registerClosure_fields:
  "globals (snd (registerClosure perr guildID appCmd session w)) = globals w
   \<and> invoked (snd (registerClosure perr guildID appCmd session w)) = invoked w"
  by (simp add: registerClosure_def ApplicationCommandCreate_def split: option.splits)

lemma replay_fields:
  "globals (snd (replay perr guildID session fs w)) = globals w
   \<and> invoked (snd (replay perr guildID session fs w)) = invoked w"
proof (induction fs arbitrary: w)
  case Nil
  then show ?case by simp
next
  case (Cons f fs)
  then show ?case
    using registerClosure_fields [of perr guildID f session w]
    by (auto split: prod.splits option.splits)
qed

lemma SetSession_fields:
  "globals (snd (snd (SetSession perr session b w))) = globals w
   \<and> invoked (snd (snd (SetSession perr session b w))) = invoked w"
  using replay_fields [of perr "GuildID b" session "waitRegister b"
      "slog Info ''Setting session for ApplicationCommandBinding'' w"]
  by (auto simp: SetSession_def Let_def slog_def split: prod.splits)

lemma setSession_fields:
  "globals (snd (snd (setSession perr session bs w))) = globals w
   \<and> invoked (snd (snd (setSession perr session bs w))) = invoked w"
proof (induction bs arbitrary: w)
  case Nil
  then show ?case by simp
next
  case (Cons b bs)
  obtain e b' w' where 1: "SetSession perr session b w = (e, b', w')"
    by (cases "SetSession perr session b w")
  with SetSession_fields [of perr session b w]
  have w': "globals w' = globals w" "invoked w' = invoked w" by simp_all
  obtain e2 bs' w'' where 2: "setSession perr session bs w' = (e2, bs', w'')"
    by (cases "setSession perr session bs w'")
  with Cons.IH [of w'] w'
  have "globals w'' = globals w" "invoked w'' = invoked w" by simp_all
  with 1 2 w' show ?case by (cases e) simp_all
qed

lemma setSession_accepting:
  assumes acc: "\<forall>h c. perr h c = None"
  shows "fst (setSession perr (Some s) bs w) = None"
proof (induction bs arbitrary: w)
  case Nil
  then show ?case by simp
next
  case (Cons b bs)
  obtain e b' w' where 1: "SetSession perr (Some s) b w = (e, b', w')"
    by (cases "SetSession perr (Some s) b w")
  with replay_accepting [OF acc, of "GuildID b" s "waitRegister b"
      "slog Info ''Setting session for ApplicationCommandBinding'' w"]
  have e: "e = None" by (simp add: SetSession_parts)
  obtain e2 bs' w'' where 2: "setSession perr (Some s) bs w' = (e2, bs', w'')"
    by (cases "setSession perr (Some s) bs w'")
  with Cons.IH [of w'] have "e2 = None" by simp
  with 1 2 e show ?case by simp
qed

lemma ReadyHandler_accepting:
  "\<forall>h c. perr h c = None \<Longrightarrow> fst (ReadyHandler perr sem (Some s) m w) = None"
  using setSession_accepting [of perr s "Bindings m" "slog Info ''Handling ready event'' w"]
  by (auto simp: ReadyHandler_def split: prod.splits option.splits)

lemma ReadyHandler_invoked:
  assumes "fst (ReadyHandler perr sem s m w) = None"
    and "OnReadyCbs m = map fst ps"
    and "\<forall>f args g. \<forall>p\<in>set ps. snd (sem f args g) (fst p) = g (fst p)"
    and "\<forall>p\<in>set ps. globals w (fst p) = LFunction (snd p)"
  shows "invoked (snd (snd (ReadyHandler perr sem s m w))) = invoked w @ map (\<lambda>p. (snd p, [])) ps"
proof -
  obtain e bs w' where ss: "setSession perr s (Bindings m) (slog Info ''Handling ready event'' w) = (e, bs, w')"
    by (cases "setSession perr s (Bindings m) (slog Info ''Handling ready event'' w)")
  with assms(1) have e: "e = None" by (auto simp: ReadyHandler_def split: option.splits)
  from setSession_fields [of perr s "Bindings m" "slog Info ''Handling ready event'' w"] ss
  have w': "globals w' = globals w" "invoked w' = invoked w" by (simp_all add: slog_def)
  from assms(4) w' have "\<forall>p\<in>set ps. globals w' (fst p) = LFunction (snd p)" by simp
  from ReadyHandler_loop_invoked [OF assms(3) this] w' ss e assms(2) show ?thesis
    by (simp add: ReadyHandler_def)
qed


text \<open>
  Two registrations at the same clock reading, whatever the state: the name is appended
  twice and the global holds the function registered last.
\<close>

lemma on_ready_same_clock:
  "on_ready now (LFunction g) (snd (on_ready now (LFunction f) mw)) =
     (None,
      (fst mw)\<lparr>OnReadyCbs := OnReadyCbs (fst mw) @ [onReadyName now, onReadyName now]\<rparr>,
      (snd mw)\<lparr>globals := (globals (snd mw))(onReadyName now := LFunction g)\<rparr>)"
  by (simp add: on_ready_function)

text \<open>
  When readiness is signalled after two such registrations, the function registered last
  is called twice and the one registered first is not called.
\<close>

lemma ReadyHandler_same_clock_example:
  "invoked (snd (snd
     (ReadyHandler (\<lambda>h c. None) (\<lambda>f args g. (None, g)) (Some \<lparr>StateUserID = ''u''\<rparr>)
        (fst (on_ready_all [(1700000000, 1), (1700000000, 2)] (freshManager, freshWorld)))
        (snd (on_ready_all [(1700000000, 1), (1700000000, 2)] (freshManager, freshWorld))))))
   = [(2, []), (2, [])]"
  by (simp add: ReadyHandler_def SetSession_def Do_def readyTask_def CallByParam_def
        on_ready_def SetGlobal_def Let_def show_int_def slog_def
        freshManager_def freshWorld_def freshBinding_def)

text \<open>
  C6: the code breaks the claim. Two registrations made while the clock shows the same
  second get the same global name: the list of callback names holds that name twice and
  the global holds the second function only.
\<close>

theorem C6_same_second_same_name:
  "on_ready 1700000000 (LFunction 2)
     (snd (on_ready 1700000000 (LFunction 1) (freshManager, freshWorld)))
   = (None,
      freshManager\<lparr>OnReadyCbs := [''on_ready_handler_1700000000'',
                                    ''on_ready_handler_1700000000'']\<rparr>,
      freshWorld\<lparr>globals := (\<lambda>name. LNil)(''on_ready_handler_1700000000'' := LFunction 2)\<rparr>)"
  by (simp add: on_ready_def SetGlobal_def Let_def show_int_def freshManager_def freshWorld_def)

text \<open>
  C5, as the claim states it, fails: nothing limits a callback to one call for the
  lifetime of the process. When the host signals readiness a second time, the callback
  is called a second time.
\<close>

theorem C5_ready_twice_counterexample:
  "invoked (snd (snd
     (ReadyHandler (\<lambda>h c. None) (\<lambda>f args g. (None, g)) (Some \<lparr>StateUserID = ''u''\<rparr>)
        (fst (snd (ReadyHandler (\<lambda>h c. None) (\<lambda>f args g. (None, g)) (Some \<lparr>StateUserID = ''u''\<rparr>)
                     (fst (on_ready_all [(1, 10)] (freshManager, freshWorld)))
                     (snd (on_ready_all [(1, 10)] (freshManager, freshWorld))))))
        (snd (snd (ReadyHandler (\<lambda>h c. None) (\<lambda>f args g. (None, g)) (Some \<lparr>StateUserID = ''u''\<rparr>)
                     (fst (on_ready_all [(1, 10)] (freshManager, freshWorld)))
                     (snd (on_ready_all [(1, 10)] (freshManager, freshWorld)))))))))
   = [(10, []), (10, [])]"
  by (simp add: ReadyHandler_def SetSession_def Do_def readyTask_def CallByParam_def
        on_ready_def SetGlobal_def Let_def show_int_def slog_def
        freshManager_def freshWorld_def freshBinding_def)

text \<open>
  C5, amended: when the registrations were made at pairwise different clock readings
  (so that their global names differ), no callback overwrites the global of a registered
  callback, and the replay of the pending command registrations does not raise (it does
  not when the platform accepts every call), then each
  time the host signals readiness every registered callback is called once, in
  registration order, each in a protected call in its own task on the Runner. A callback
  that raises an error is called and logged like the others and the callbacks after it are
  still called: the calls made do not depend on which callbacks fail.
\<close>

theorem C5_ready_callbacks_in_order:
  "(OnReadyCbs m = [] \<longrightarrow>
    distinct (map fst regs) \<longrightarrow>
    (\<forall>f args g. \<forall>r\<in>set regs. snd (sem f args g) (onReadyName (fst r)) = g (onReadyName (fst r))) \<longrightarrow>
    fst (ReadyHandler perr sem s (fst (on_ready_all regs (m, w)))
           (snd (on_ready_all regs (m, w)))) = None \<longrightarrow>
    invoked (snd (snd (ReadyHandler perr sem s (fst (on_ready_all regs (m, w)))
                         (snd (on_ready_all regs (m, w))))))
      = invoked w @ map (\<lambda>r. (snd r, [])) regs)
   \<and> (globals w2 cb = LFunction f \<longrightarrow>
      sem f [] (globals w2) = (Some err, g') \<longrightarrow>
      Do (readyTask sem cb) w2 =
        w2\<lparr>globals := g', invoked := invoked w2 @ [(f, [])],
           logs := logs w2 @ [(Error, ''Error executing Lua on_ready handler'')]\<rparr>)
   \<and> ((\<forall>h c. perr h c = None) \<longrightarrow> fst (ReadyHandler perr sem (Some s2) m2 w3) = None)"
proof (intro conjI impI)
  let ?mw = "on_ready_all regs (m, w)"
  let ?ps = "map (\<lambda>r. (onReadyName (fst r), snd r)) regs"
  assume empty: "OnReadyCbs m = []"
    and dist: "distinct (map fst regs)"
    and pres: "\<forall>f args g. \<forall>r\<in>set regs. snd (sem f args g) (onReadyName (fst r)) = g (onReadyName (fst r))"
    and ok: "fst (ReadyHandler perr sem s (fst ?mw) (snd ?mw)) = None"
  from on_ready_all_manager [of regs "(m, w)"] empty
  have cbs: "OnReadyCbs (fst ?mw) = map fst ?ps" by (simp add: comp_def)
  from pres have pres': "\<forall>f args g. \<forall>p\<in>set ?ps. snd (sem f args g) (fst p) = g (fst p)"
    by simp
  have gl: "\<forall>p\<in>set ?ps. globals (snd ?mw) (fst p) = LFunction (snd p)"
    using on_ready_all_globals [OF dist, of _ _ "(m, w)"] by auto
  from ReadyHandler_invoked [OF ok cbs pres' gl] on_ready_all_world [of regs "(m, w)"]
  show "invoked (snd (snd (ReadyHandler perr sem s (fst ?mw) (snd ?mw))))
      = invoked w @ map (\<lambda>r. (snd r, [])) regs"
    by (simp add: comp_def)
next
  assume "globals w2 cb = LFunction f" and "sem f [] (globals w2) = (Some err, g')"
  then show "Do (readyTask sem cb) w2 =
        w2\<lparr>globals := g', invoked := invoked w2 @ [(f, [])],
           logs := logs w2 @ [(Error, ''Error executing Lua on_ready handler'')]\<rparr>"
    by (simp add: Do_readyTask_function)
next
  assume "\<forall>h c. perr h c = None"
  then show "fst (ReadyHandler perr sem (Some s2) m2 w3) = None"
    by (rule ReadyHandler_accepting)
qed

theorem C5_ready_callbacks_in_order_witness:
  "invoked (snd (snd
     (ReadyHandler (\<lambda>h c. None) (\<lambda>f args g. (if f = 10 then Some ''boom'' else None, g))
        (Some \<lparr>StateUserID = ''u''\<rparr>)
        (fst (on_ready_all [(1, 10), (2, 11), (3, 12)] (freshManager, freshWorld)))
        (snd (on_ready_all [(1, 10), (2, 11), (3, 12)] (freshManager, freshWorld))))))
   = [(10, []), (11, []), (12, [])]
   \<and> Do (readyTask (\<lambda>f args g. (if f = 10 then Some ''boom'' else None, g)) ''cb'')
        (freshWorld\<lparr>globals := (\<lambda>name. LNil)(''cb'' := LFunction 10)\<rparr>)
     = freshWorld\<lparr>globals := (\<lambda>name. LNil)(''cb'' := LFunction 10),
                  invoked := [(10, [])],
                  logs := [(Error, ''Error executing Lua on_ready handler'')]\<rparr>"
proof -
  have ok: "fst (ReadyHandler (\<lambda>h c. None) (\<lambda>f args g. (if f = 10 then Some ''boom'' else None, g))
        (Some \<lparr>StateUserID = ''u''\<rparr>)
        (fst (on_ready_all [(1, 10), (2, 11), (3, 12)] (freshManager, freshWorld)))
        (snd (on_ready_all [(1, 10), (2, 11), (3, 12)] (freshManager, freshWorld)))) = None"
    by (simp add: ReadyHandler_def SetSession_def on_ready_def Let_def
          freshManager_def freshBinding_def)
  show ?thesis
    using ok C5_ready_callbacks_in_order
      [of freshManager "[(1, 10), (2, 11), (3, 12)]"
          "\<lambda>f args g. (if f = 10 then Some ''boom'' else None, g)"
          "\<lambda>h c. None" "Some \<lparr>StateUserID = ''u''\<rparr>" freshWorld
          "freshWorld\<lparr>globals := (\<lambda>name. LNil)(''cb'' := LFunction 10)\<rparr>" "''cb''" 10
          "''boom''" "(\<lambda>name. LNil)(''cb'' := LFunction 10)"]
    by (simp add: freshManager_def freshWorld_def)
qed

end
